theory Spec2Isabelle
  imports Complex_Main "HOL-Library.Word"
begin

section \<open>Errors\<close>

text \<open>
  The exceptions of \<^verbatim>\<open>sktree/tree/_classes.py\<close>, as values. \<open>RuntimeError\<close> carries
  the configuration check that failed, \<open>ValueError\<close> the input check that failed.
  \<open>KeyError\<close> is a failed lookup in one of the module's tables, \<open>AttributeError\<close> the
  read of an attribute that has not been set, \<open>IndexError\<close> an index out of range.
  \<open>External\<close> is any exception raised inside a collaborator that is not part of this
  module (scikit-learn's validation, the compiled builders, the clustering routine).
\<close>

datatype config_failure =
    FeatureCombinationsTooLarge
  | DataShapeMismatch
  | MinPatchHeightAboveMax
  | MinPatchWidthAboveMax
  | MaxPatchWidthAboveData
  | MaxPatchHeightAboveData

datatype input_failure =
    SparseInt64Index
  | SparseNotSupported
  | PoissonNegativeY
  | PoissonNonPositiveSum

datatype error =
    RuntimeError config_failure
  | ValueError input_failure
  | KeyError string
  | AttributeError string
  | IndexError
  | NotFittedError
  | External string

section \<open>The affinity matrix\<close>

text \<open>
  \<^verbatim>\<open>_compute_affinity_matrix\<close> works on a one-dimensional array of leaf ids and an
  \<open>n \<times> n\<close> array of \<^verbatim>\<open>np.int32\<close>. Leaf ids are integers; matrix cells are 32-bit words,
  so \<open>+\<close> wraps as the array's does; a matrix is the list of its rows.
\<close>

type_synonym int32 = "32 word"
type_synonym matrix = "int32 list list"

text \<open>\<^verbatim>\<open>np.zeros((r, c), dtype=np.int32)\<close>\<close>

definition zeros :: "nat \<Rightarrow> nat \<Rightarrow> matrix" where
  "zeros r c = replicate r (replicate c 0)"

text \<open>\<^verbatim>\<open>np.unique\<close>: the sorted distinct values.\<close>

definition unique :: "int list \<Rightarrow> int list" where
  "unique xs = sort (remdups xs)"

text \<open>
  \<^verbatim>\<open>np.argwhere(X_leaves == leaf)\<close>: an array of shape \<open>(k, 1)\<close>, one row \<open>[i]\<close> for each
  position \<open>i\<close> that holds the leaf, in increasing order.
\<close>

definition argwhere_eq :: "int list \<Rightarrow> int \<Rightarrow> nat list list" where
  "argwhere_eq xs leaf = map (\<lambda>i. [i]) (filter (\<lambda>i. xs ! i = leaf) [0..<length xs])"

text \<open>
  \<^verbatim>\<open>squeeze\<close> drops the axes of length one: a \<open>(k, 1)\<close> array becomes a vector of
  length \<open>k\<close>, except that a \<open>(1, 1)\<close> array becomes a scalar. \<^verbatim>\<open>np.atleast_1d\<close> turns
  the scalar back into a vector of length one.
\<close>

datatype squeezed = Scalar nat | Vector "nat list"

definition squeeze :: "nat list list \<Rightarrow> squeezed" where
  "squeeze a = (case a of [[i]] \<Rightarrow> Scalar i | _ \<Rightarrow> Vector (concat a))"

definition atleast_1d :: "squeezed \<Rightarrow> nat list" where
  "atleast_1d s = (case s of Scalar i \<Rightarrow> [i] | Vector v \<Rightarrow> v)"

text \<open>
  \<^verbatim>\<open>aff_matrix[np.ix_(rs, cs)] += 1\<close> reads the sub-matrix at rows \<open>rs\<close> and columns
  \<open>cs\<close>, adds one to each of its cells, and writes it back cell by cell (a later write
  to the same cell wins). An index outside the array raises \<open>IndexError\<close>.
\<close>

definition ix_get :: "matrix \<Rightarrow> nat list \<Rightarrow> nat list \<Rightarrow> matrix" where
  "ix_get m rs cs = map (\<lambda>i. map (\<lambda>j. m ! i ! j) cs) rs"

definition set_row :: "int32 list \<Rightarrow> nat list \<Rightarrow> int32 list \<Rightarrow> int32 list" where
  "set_row row cs vals = fold (\<lambda>(j, v) r. r[j := v]) (zip cs vals) row"

definition ix_set :: "matrix \<Rightarrow> nat list \<Rightarrow> nat list \<Rightarrow> matrix \<Rightarrow> matrix" where
  "ix_set m rs cs vals = fold (\<lambda>(i, vrow) a. a[i := set_row (a ! i) cs vrow]) (zip rs vals) m"

definition in_bounds :: "matrix \<Rightarrow> nat list \<Rightarrow> nat list \<Rightarrow> bool" where
  "in_bounds m rs cs =
     (list_all (\<lambda>i. i < length m) rs \<and> list_all (\<lambda>j. list_all (\<lambda>row. j < length row) m) cs)"

definition ix_iadd :: "matrix \<Rightarrow> nat list \<Rightarrow> nat list \<Rightarrow> int32 \<Rightarrow> error + matrix" where
  "ix_iadd m rs cs k =
     (if in_bounds m rs cs
      then Inr (ix_set m rs cs (map (map (\<lambda>v. v + k)) (ix_get m rs cs)))
      else Inl IndexError)"

text \<open>
  The loop \<^verbatim>\<open>for leaf in np.unique(X_leaves)\<close> of \<^verbatim>\<open>_compute_affinity_matrix\<close>, and the
  method itself.
\<close>

fun affinity_loop :: "int list \<Rightarrow> int list \<Rightarrow> matrix \<Rightarrow> error + matrix" where
  "affinity_loop X_leaves [] aff_matrix = Inr aff_matrix"
| "affinity_loop X_leaves (leaf # leaves) aff_matrix =
     (let samples_in_leaf = atleast_1d (squeeze (argwhere_eq X_leaves leaf))
      in case ix_iadd aff_matrix samples_in_leaf samples_in_leaf 1 of
           Inl e \<Rightarrow> Inl e
         | Inr aff_matrix' \<Rightarrow> affinity_loop X_leaves leaves aff_matrix')"

definition compute_affinity_matrix :: "int list \<Rightarrow> error + matrix" where
  "compute_affinity_matrix X_leaves =
     (let n_samples = length X_leaves;
          aff_matrix = zeros n_samples n_samples
      in affinity_loop X_leaves (unique X_leaves) aff_matrix)"

text \<open>A matrix is square of size \<open>n\<close> when it has \<open>n\<close> rows of \<open>n\<close> cells.\<close>

definition square :: "nat \<Rightarrow> matrix \<Rightarrow> bool" where
  "square n m = (length m = n \<and> list_all (\<lambda>row. length row = n) m)"

section \<open>Inputs, parameters and the objects the module constructs\<close>

text \<open>
  A feature matrix \<open>X\<close>, as far as this module looks at it: its shape, whether it is a
  SciPy sparse matrix, and for a sparse matrix whether its index arrays have dtype
  \<^verbatim>\<open>np.intc\<close> and whether \<^verbatim>\<open>sort_indices\<close> has run. The numbers themselves are only
  handed on to collaborators.
\<close>

record features =
  n_rows :: nat
  n_cols :: nat
  issparse :: bool
  indices_intc :: bool
  indices_sorted :: bool
  data :: "real list list"

type_synonym target = "int list"
type_synonym weights = "real list"

text \<open>Constructor parameters that accept values of several kinds.\<close>

datatype criterion_param = CriterionName string | CriterionInstance nat
datatype splitter_param = SplitterName string | SplitterInstance nat
datatype count_param = Count int | Fraction real
datatype max_features_param =
  MaxFeaturesNone | MaxFeaturesInt int | MaxFeaturesFloat real | MaxFeaturesStr string
datatype clustering = AgglomerativeClustering | UserClustering nat

type_synonym kwargs = "(string \<times> string) list"

text \<open>The module's lookup tables; a missing key raises \<open>KeyError\<close>.\<close>

datatype criterion_class = Gini | Entropy | MSE | FriedmanMSE | MAE | Poisson | TwoMeans | FastBIC

datatype splitter_class =
  BestObliqueSplitter | BestPatchSplitter | BestUnsupervisedSplitter
  | BestObliqueUnsupervisedSplitter

definition CRITERIA_CLF :: "string \<rightharpoonup> criterion_class" where
  "CRITERIA_CLF = map_of [(''gini'', Gini), (''log_loss'', Entropy), (''entropy'', Entropy)]"

definition CRITERIA_REG :: "string \<rightharpoonup> criterion_class" where
  "CRITERIA_REG = map_of [(''squared_error'', MSE), (''friedman_mse'', FriedmanMSE),
     (''absolute_error'', MAE), (''poisson'', Poisson)]"

definition OBLIQUE_DENSE_SPLITTERS :: "string \<rightharpoonup> splitter_class" where
  "OBLIQUE_DENSE_SPLITTERS = map_of [(''best'', BestObliqueSplitter)]"

definition PATCH_DENSE_SPLITTERS :: "string \<rightharpoonup> splitter_class" where
  "PATCH_DENSE_SPLITTERS = map_of [(''best'', BestPatchSplitter)]"

definition UNSUPERVISED_CRITERIA :: "string \<rightharpoonup> criterion_class" where
  "UNSUPERVISED_CRITERIA = map_of [(''twomeans'', TwoMeans), (''fastbic'', FastBIC)]"

definition UNSUPERVISED_SPLITTERS :: "string \<rightharpoonup> splitter_class" where
  "UNSUPERVISED_SPLITTERS = map_of [(''best'', BestUnsupervisedSplitter)]"

definition UNSUPERVISED_OBLIQUE_SPLITTERS :: "string \<rightharpoonup> splitter_class" where
  "UNSUPERVISED_OBLIQUE_SPLITTERS = map_of [(''best'', BestObliqueUnsupervisedSplitter)]"

text \<open>
  An attribute that scikit-learn keeps per output (\<^verbatim>\<open>n_classes_\<close>, \<^verbatim>\<open>classes_\<close>): an
  array with one entry per output, or, after unpacking, the entry of the only output.
\<close>

datatype 'a per_output = PerOutput "'a list" | Single 'a

text \<open>
  The objects built by \<^verbatim>\<open>_build_tree\<close>, each recorded with the arguments of its
  constructor call, in the order of the call. The compiled classes themselves are
  collaborators; the module only constructs them and hands them on.
\<close>

datatype criterion_obj =
    ClfCriterion criterion_class nat "nat per_output"
  | RegCriterion criterion_class nat nat
  | UnsupCriterion criterion_class
  | DeepCopy nat

datatype splitter_extra =
    NoExtra
  | FeatureCombinations real
  | Patch int int int int int int

datatype splitter_obj =
    NewSplitter splitter_class criterion_obj nat int real nat splitter_extra
  | GivenSplitter nat

datatype tree_obj =
    UnsupervisedTree nat
  | UnsupervisedObliqueTree nat
  | ObliqueTree nat "nat per_output" nat

datatype builder =
    UnsupervisedDepthFirstTreeBuilder splitter_obj int int real int real
  | UnsupervisedBestFirstTreeBuilder splitter_obj int int real int int real
  | DepthFirstTreeBuilder splitter_obj int int real int real
  | BestFirstTreeBuilder splitter_obj int int real int int real

fun is_depth_first :: "builder \<Rightarrow> bool" where
  "is_depth_first (UnsupervisedDepthFirstTreeBuilder _ _ _ _ _ _) = True"
| "is_depth_first (DepthFirstTreeBuilder _ _ _ _ _ _) = True"
| "is_depth_first _ = False"

fun is_best_first :: "builder \<Rightarrow> bool" where
  "is_best_first (UnsupervisedBestFirstTreeBuilder _ _ _ _ _ _ _) = True"
| "is_best_first (BestFirstTreeBuilder _ _ _ _ _ _ _) = True"
| "is_best_first _ = False"

fun builder_min_samples_split :: "builder \<Rightarrow> int" where
  "builder_min_samples_split (UnsupervisedDepthFirstTreeBuilder _ mss _ _ _ _) = mss"
| "builder_min_samples_split (UnsupervisedBestFirstTreeBuilder _ mss _ _ _ _ _) = mss"
| "builder_min_samples_split (DepthFirstTreeBuilder _ mss _ _ _ _) = mss"
| "builder_min_samples_split (BestFirstTreeBuilder _ mss _ _ _ _ _) = mss"

fun builder_max_depth :: "builder \<Rightarrow> int" where
  "builder_max_depth (UnsupervisedDepthFirstTreeBuilder _ _ _ _ md _) = md"
| "builder_max_depth (UnsupervisedBestFirstTreeBuilder _ _ _ _ md _ _) = md"
| "builder_max_depth (DepthFirstTreeBuilder _ _ _ _ md _) = md"
| "builder_max_depth (BestFirstTreeBuilder _ _ _ _ md _ _) = md"

text \<open>
  \<^verbatim>\<open>self.tree_\<close> holds the tree object as constructed until \<^verbatim>\<open>builder.build\<close> has grown
  it; \<open>'t\<close> is the grown tree, which only the collaborators look into.
\<close>

datatype 't tree = Empty tree_obj | Grown 't

text \<open>
  The calls into the compiled collaborators that construct an object or grow the tree,
  in the order they happen. Every estimator carries this log, so that a theorem can say
  which of them a method has issued when it returns or raises.
\<close>

datatype call =
    Construct_criterion criterion_obj
  | Construct_splitter splitter_obj
  | Construct_tree tree_obj
  | Construct_builder builder
  | Call_build builder

fun is_construct_splitter :: "call \<Rightarrow> bool" where
  "is_construct_splitter (Construct_splitter _) = True"
| "is_construct_splitter _ = False"

fun is_construct_tree :: "call \<Rightarrow> bool" where
  "is_construct_tree (Construct_tree _) = True"
| "is_construct_tree _ = False"

fun is_call_build :: "call \<Rightarrow> bool" where
  "is_call_build (Call_build _) = True"
| "is_call_build _ = False"

section \<open>Estimators\<close>

text \<open>
  The attributes of an estimator. Those of the constructor are always present. Those
  whose name ends in an underscore are set while fitting; \<open>None\<close> is an attribute that
  is not set, and reading it raises \<open>AttributeError\<close>. A name cannot end in an
  underscore here, so \<^verbatim>\<open>tree_\<close> is the field \<open>tree_'\<close>, and so on.
\<close>

record 't base_decision_tree =
  criterion :: criterion_param
  splitter :: splitter_param
  max_depth :: "int option"
  min_samples_split :: count_param
  min_samples_leaf :: count_param
  min_weight_fraction_leaf :: real
  max_features :: max_features_param
  max_leaf_nodes :: "int option"
  random_state :: "nat option"
  min_impurity_decrease :: real
  n_features_in_' :: "nat option"
  max_features_' :: "nat option"
  n_outputs_' :: "nat option"
  tree_' :: "'t tree option"
  calls :: "call list"

record 't unsupervised_decision_tree = "'t base_decision_tree" +
  clustering_func :: "clustering option"
  clustering_func_args :: "kwargs option"
  affinity_matrix_' :: "matrix option"
  labels_' :: "int list option"
  clustering_func_' :: "clustering option"
  clustering_func_args_' :: "kwargs option"

record 't unsupervised_oblique_decision_tree = "'t unsupervised_decision_tree" +
  feature_combinations :: real

record 't decision_tree_classifier = "'t base_decision_tree" +
  class_weight :: "nat option"
  n_classes_' :: "nat per_output option"
  classes_' :: "int list per_output option"

record 't oblique_decision_tree_classifier = "'t decision_tree_classifier" +
  clf_feature_combinations :: "real option"
  feature_combinations_' :: "real option"

record 't patch_oblique_decision_tree_classifier = "'t decision_tree_classifier" +
  min_patch_height :: int
  max_patch_height :: int
  min_patch_width :: int
  max_patch_width :: int
  data_height :: int
  data_width :: "int option"
  data_width_' :: "int option"
  data_height_' :: "int option"

text \<open>
  A method returns a value or raises, and leaves the estimator in some state either way.
  \<open>seq\<close> runs the next statement on the state the previous one left, unless it raised.
\<close>

type_synonym ('a, 's) outcome = "(error + 'a) \<times> 's"

definition seq :: "('a, 's) outcome \<Rightarrow> ('a \<Rightarrow> 's \<Rightarrow> ('b, 's) outcome) \<Rightarrow> ('b, 's) outcome" where
  "seq r f = (case r of (Inl e, s) \<Rightarrow> (Inl e, s) | (Inr a, s) \<Rightarrow> f a s)"

definition attr :: "string \<Rightarrow> 'a option \<Rightarrow> 's \<Rightarrow> ('a, 's) outcome" where
  "attr name v s = (case v of None \<Rightarrow> (Inl (AttributeError name), s) | Some x \<Rightarrow> (Inr x, s))"

definition lookup :: "(string \<rightharpoonup> 'a) \<Rightarrow> string \<Rightarrow> 's \<Rightarrow> ('a, 's) outcome" where
  "lookup table key s = (case table key of None \<Rightarrow> (Inl (KeyError key), s) | Some x \<Rightarrow> (Inr x, s))"

definition raise :: "error \<Rightarrow> 's \<Rightarrow> ('a, 's) outcome" where
  "raise e s = (Inl e, s)"

text \<open>
  Constructing an object of a compiled class, and \<^verbatim>\<open>builder.build\<close>. The builder is a
  collaborator: \<open>build\<close> stands for it, and may raise. The tree it has grown replaces
  the empty one in \<^verbatim>\<open>self.tree_\<close>.
\<close>

type_synonym 't build =
  "builder \<Rightarrow> tree_obj \<Rightarrow> features \<Rightarrow> target option \<Rightarrow> weights option \<Rightarrow> error + 't"

definition construct_criterion ::
  "criterion_obj \<Rightarrow> ('t, 'z) base_decision_tree_scheme
     \<Rightarrow> (criterion_obj, ('t, 'z) base_decision_tree_scheme) outcome" where
  "construct_criterion c self = (Inr c, self\<lparr>calls := calls self @ [Construct_criterion c]\<rparr>)"

definition construct_splitter ::
  "splitter_obj \<Rightarrow> ('t, 'z) base_decision_tree_scheme
     \<Rightarrow> (splitter_obj, ('t, 'z) base_decision_tree_scheme) outcome" where
  "construct_splitter sp self = (Inr sp, self\<lparr>calls := calls self @ [Construct_splitter sp]\<rparr>)"

definition construct_tree ::
  "tree_obj \<Rightarrow> ('t, 'z) base_decision_tree_scheme
     \<Rightarrow> (tree_obj, ('t, 'z) base_decision_tree_scheme) outcome" where
  "construct_tree t self = (Inr t, self\<lparr>calls := calls self @ [Construct_tree t]\<rparr>)"

definition construct_builder ::
  "builder \<Rightarrow> ('t, 'z) base_decision_tree_scheme
     \<Rightarrow> (builder, ('t, 'z) base_decision_tree_scheme) outcome" where
  "construct_builder b self = (Inr b, self\<lparr>calls := calls self @ [Construct_builder b]\<rparr>)"

definition call_build ::
  "'t build \<Rightarrow> builder \<Rightarrow> tree_obj \<Rightarrow> features \<Rightarrow> target option \<Rightarrow> weights option
     \<Rightarrow> ('t, 'z) base_decision_tree_scheme \<Rightarrow> (unit, ('t, 'z) base_decision_tree_scheme) outcome" where
  "call_build build b t X y sample_weight self =
     (let self1 = self\<lparr>calls := calls self @ [Call_build b]\<rparr>
      in case build b t X y sample_weight of
           Inl e \<Rightarrow> (Inl e, self1)
         | Inr grown \<Rightarrow> (Inr (), self1\<lparr>tree_' := Some (Grown grown)\<rparr>))"

section \<open>UnsupervisedDecisionTree\<close>

text \<open>
  \<^verbatim>\<open>__init__\<close>, with its arguments in the order of the signature, and the estimator that
  \<^verbatim>\<open>UnsupervisedDecisionTree()\<close> makes: every argument at the default of the signature.
\<close>

definition UnsupervisedDecisionTree_init ::
  "criterion_param \<Rightarrow> splitter_param \<Rightarrow> int option \<Rightarrow> count_param \<Rightarrow> count_param \<Rightarrow> real
     \<Rightarrow> max_features_param \<Rightarrow> int option \<Rightarrow> nat option \<Rightarrow> real \<Rightarrow> clustering option
     \<Rightarrow> kwargs option \<Rightarrow> 't unsupervised_decision_tree" where
  "UnsupervisedDecisionTree_init criterion' splitter' max_depth' min_samples_split'
     min_samples_leaf' min_weight_fraction_leaf' max_features' max_leaf_nodes' random_state'
     min_impurity_decrease' clustering_func' clustering_func_args' =
     \<lparr>criterion = criterion', splitter = splitter', max_depth = max_depth',
      min_samples_split = min_samples_split', min_samples_leaf = min_samples_leaf',
      min_weight_fraction_leaf = min_weight_fraction_leaf', max_features = max_features',
      max_leaf_nodes = max_leaf_nodes', random_state = random_state',
      min_impurity_decrease = min_impurity_decrease',
      n_features_in_' = None, max_features_' = None, n_outputs_' = None, tree_' = None, calls = [],
      clustering_func = clustering_func', clustering_func_args = clustering_func_args',
      affinity_matrix_' = None, labels_' = None, clustering_func_' = None,
      clustering_func_args_' = None\<rparr>"

definition UnsupervisedDecisionTree_default :: "'t unsupervised_decision_tree" where
  "UnsupervisedDecisionTree_default =
     UnsupervisedDecisionTree_init (CriterionName ''twomeans'') (SplitterName ''best'') None
       (Count 5) (Count 1) 0 MaxFeaturesNone None None 0 None None"

text \<open>The default of \<^verbatim>\<open>min_samples_split\<close> that the class's parameter documentation states.\<close>

definition documented_min_samples_split :: count_param where
  "documented_min_samples_split = Count 2"

text \<open>\<^verbatim>\<open>UnsupervisedDecisionTree._build_tree\<close>\<close>

definition UnsupervisedDecisionTree_build_tree ::
  "'t build \<Rightarrow> ('t, 'z) unsupervised_decision_tree_scheme \<Rightarrow> features \<Rightarrow> target option
     \<Rightarrow> weights option \<Rightarrow> int \<Rightarrow> real \<Rightarrow> int \<Rightarrow> int \<Rightarrow> int \<Rightarrow> nat
     \<Rightarrow> (unit, ('t, 'z) unsupervised_decision_tree_scheme) outcome" where
  "UnsupervisedDecisionTree_build_tree build self X y sample_weight min_samples_leaf'
     min_weight_leaf max_leaf_nodes' min_samples_split' max_depth' random_state' =
     seq (case criterion self of
            CriterionName name \<Rightarrow>
              seq (lookup UNSUPERVISED_CRITERIA name self)
                (\<lambda>cls. construct_criterion (UnsupCriterion cls))
          | CriterionInstance c \<Rightarrow> construct_criterion (DeepCopy c) self)
     (\<lambda>criterion' self1.
     seq (case splitter self1 of
            SplitterName name \<Rightarrow>
              seq (lookup UNSUPERVISED_SPLITTERS name self1)
                (\<lambda>cls self2.
                   seq (attr ''max_features_'' (max_features_' self2) self2)
                     (\<lambda>max_features'.
                        construct_splitter
                          (NewSplitter cls criterion' max_features' min_samples_leaf'
                             min_weight_leaf random_state' NoExtra)))
          | SplitterInstance sp \<Rightarrow> (Inr (GivenSplitter sp), self1))
     (\<lambda>splitter' self2.
     seq (attr ''n_features_in_'' (n_features_in_' self2) self2)
     (\<lambda>n_features_in' self3.
     seq (construct_tree (UnsupervisedTree n_features_in') self3)
     (\<lambda>t self4.
     let self5 = self4\<lparr>tree_' := Some (Empty t)\<rparr> in
     seq (if max_leaf_nodes' < 0
          then construct_builder
                 (UnsupervisedDepthFirstTreeBuilder splitter' min_samples_split'
                    min_samples_leaf' min_weight_leaf max_depth' (min_impurity_decrease self5))
                 self5
          else construct_builder
                 (UnsupervisedBestFirstTreeBuilder splitter' min_samples_split'
                    min_samples_leaf' min_weight_leaf max_depth' max_leaf_nodes'
                    (min_impurity_decrease self5))
                 self5)
     (\<lambda>builder'. call_build build builder' t X None sample_weight)))))"

text \<open>
  The collaborators of the methods below. \<open>validate_data\<close> is \<^verbatim>\<open>self._validate_data\<close>
  (it may set attributes of the estimator), \<open>super_fit\<close> is the \<^verbatim>\<open>fit\<close> of
  scikit-learn's \<^verbatim>\<open>BaseDecisionTree\<close> (which validates, resolves the parameters and calls
  \<^verbatim>\<open>_build_tree\<close>), \<open>tree_apply\<close> is \<^verbatim>\<open>self.apply\<close> and \<open>validate_X_predict\<close> is
  \<^verbatim>\<open>self._validate_X_predict\<close> (both read the estimator only), and \<open>fit_predict\<close> makes
  an instance of the clustering class with the keyword arguments and calls its
  \<^verbatim>\<open>fit_predict\<close> on the matrix.
\<close>

record ('t, 'z) unsup_extern =
  validate_data :: "('t, 'z) unsupervised_decision_tree_scheme \<Rightarrow> features
     \<Rightarrow> (features, ('t, 'z) unsupervised_decision_tree_scheme) outcome"
  super_fit :: "('t, 'z) unsupervised_decision_tree_scheme \<Rightarrow> features \<Rightarrow> target option
     \<Rightarrow> weights option \<Rightarrow> bool \<Rightarrow> (unit, ('t, 'z) unsupervised_decision_tree_scheme) outcome"
  tree_apply :: "('t, 'z) unsupervised_decision_tree_scheme \<Rightarrow> features \<Rightarrow> error + int list"
  validate_X_predict :: "('t, 'z) unsupervised_decision_tree_scheme \<Rightarrow> features \<Rightarrow> bool
     \<Rightarrow> error + features"
  fit_predict :: "clustering \<Rightarrow> kwargs \<Rightarrow> matrix \<Rightarrow> error + int list"

text \<open>
  scikit-learn's \<^verbatim>\<open>check_is_fitted(self)\<close>: the estimator counts as fitted when it has
  at least one attribute whose name ends in an underscore.
\<close>

definition check_is_fitted ::
  "('t, 'z) unsupervised_decision_tree_scheme
     \<Rightarrow> (unit, ('t, 'z) unsupervised_decision_tree_scheme) outcome" where
  "check_is_fitted self =
     (if n_features_in_' self = None \<and> max_features_' self = None \<and> n_outputs_' self = None \<and>
         tree_' self = None \<and> affinity_matrix_' self = None \<and> labels_' self = None \<and>
         clustering_func_' self = None \<and> clustering_func_args_' self = None
      then (Inl NotFittedError, self) else (Inr (), self))"

text \<open>\<^verbatim>\<open>UnsupervisedDecisionTree._assign_labels\<close>\<close>

definition assign_labels ::
  "('t, 'z) unsup_extern \<Rightarrow> ('t, 'z) unsupervised_decision_tree_scheme \<Rightarrow> matrix
     \<Rightarrow> (int list, ('t, 'z) unsupervised_decision_tree_scheme) outcome" where
  "assign_labels ext self affinity_matrix =
     (let self1 = (if clustering_func self = None
                   then self\<lparr>clustering_func_' := Some AgglomerativeClustering\<rparr>
                   else self\<lparr>clustering_func_' := clustering_func self\<rparr>);
          self2 = (if clustering_func_args self1 = None
                   then self1\<lparr>clustering_func_args_' := Some []\<rparr>
                   else self1\<lparr>clustering_func_args_' := clustering_func_args self1\<rparr>)
      in seq (attr ''clustering_func_'' (clustering_func_' self2) self2)
        (\<lambda>cls self3.
        seq (attr ''clustering_func_args_'' (clustering_func_args_' self3) self3)
        (\<lambda>args self4. (fit_predict ext cls args affinity_matrix, self4))))"

text \<open>\<^verbatim>\<open>UnsupervisedDecisionTree.transform\<close>\<close>

definition transform ::
  "('t, 'z) unsup_extern \<Rightarrow> ('t, 'z) unsupervised_decision_tree_scheme \<Rightarrow> features
     \<Rightarrow> (matrix, ('t, 'z) unsupervised_decision_tree_scheme) outcome" where
  "transform ext self X =
     seq (check_is_fitted self)
     (\<lambda>_ self1.
     seq (tree_apply ext self1 X, self1)
     (\<lambda>X_leaves self2. (compute_affinity_matrix X_leaves, self2)))"

text \<open>\<^verbatim>\<open>UnsupervisedDecisionTree.predict\<close>\<close>

definition predict ::
  "('t, 'z) unsup_extern \<Rightarrow> ('t, 'z) unsupervised_decision_tree_scheme \<Rightarrow> features \<Rightarrow> bool
     \<Rightarrow> (int list, ('t, 'z) unsupervised_decision_tree_scheme) outcome" where
  "predict ext self X check_input =
     seq (validate_X_predict ext self X check_input, self)
     (\<lambda>X1 self1.
     seq (transform ext self1 X1)
     (\<lambda>affinity_matrix self2. assign_labels ext self2 affinity_matrix))"

text \<open>
  \<^verbatim>\<open>UnsupervisedDecisionTree.fit\<close>. The block under \<^verbatim>\<open>if check_input\<close> comes first, as
  \<open>fit_check_input\<close>; the method returns \<^verbatim>\<open>self\<close>, which is the state of the outcome.
\<close>

definition sort_indices :: "features \<Rightarrow> features" where
  "sort_indices X = X\<lparr>indices_sorted := True\<rparr>"

definition fit_check_input ::
  "('t, 'z) unsup_extern \<Rightarrow> ('t, 'z) unsupervised_decision_tree_scheme \<Rightarrow> features \<Rightarrow> bool
     \<Rightarrow> (features, ('t, 'z) unsupervised_decision_tree_scheme) outcome" where
  "fit_check_input ext self X check_input =
     (if check_input
      then seq (validate_data ext self X)
             (\<lambda>X1 self1.
                if issparse X1
                then (if \<not> indices_intc (sort_indices X1)
                      then raise (ValueError SparseInt64Index) self1
                      else (Inr (sort_indices X1), self1))
                else (Inr X1, self1))
      else (Inr X, self))"

definition fit ::
  "('t, 'z) unsup_extern \<Rightarrow> ('t, 'z) unsupervised_decision_tree_scheme \<Rightarrow> features
     \<Rightarrow> target option \<Rightarrow> weights option \<Rightarrow> bool
     \<Rightarrow> (unit, ('t, 'z) unsupervised_decision_tree_scheme) outcome" where
  "fit ext self X y sample_weight check_input =
     seq (fit_check_input ext self X check_input)
     (\<lambda>X1 self1.
     seq (super_fit ext self1 X1 None sample_weight check_input)
     (\<lambda>_ self2.
     let n_samples = n_rows X1 in
     seq (tree_apply ext self2 X1, self2)
     (\<lambda>X_leaves self3.
     seq (compute_affinity_matrix X_leaves, self3)
     (\<lambda>aff self4.
     let self5 = self4\<lparr>affinity_matrix_' := Some aff\<rparr> in
     if 2 \<le> n_samples
     then seq (attr ''affinity_matrix_'' (affinity_matrix_' self5) self5)
            (\<lambda>aff' self6.
            seq (assign_labels ext self6 aff')
            (\<lambda>labels self7. (Inr (), self7\<lparr>labels_' := Some labels\<rparr>)))
     else (Inr (), self5)))))"

section \<open>UnsupervisedObliqueDecisionTree\<close>

definition UnsupervisedObliqueDecisionTree_init ::
  "criterion_param \<Rightarrow> splitter_param \<Rightarrow> int option \<Rightarrow> count_param \<Rightarrow> count_param \<Rightarrow> real
     \<Rightarrow> max_features_param \<Rightarrow> int option \<Rightarrow> nat option \<Rightarrow> real \<Rightarrow> real \<Rightarrow> clustering option
     \<Rightarrow> kwargs option \<Rightarrow> 't unsupervised_oblique_decision_tree" where
  "UnsupervisedObliqueDecisionTree_init criterion' splitter' max_depth' min_samples_split'
     min_samples_leaf' min_weight_fraction_leaf' max_features' max_leaf_nodes' random_state'
     min_impurity_decrease' feature_combinations' clustering_func' clustering_func_args' =
     \<lparr>criterion = criterion', splitter = splitter', max_depth = max_depth',
      min_samples_split = min_samples_split', min_samples_leaf = min_samples_leaf',
      min_weight_fraction_leaf = min_weight_fraction_leaf', max_features = max_features',
      max_leaf_nodes = max_leaf_nodes', random_state = random_state',
      min_impurity_decrease = min_impurity_decrease',
      n_features_in_' = None, max_features_' = None, n_outputs_' = None, tree_' = None, calls = [],
      clustering_func = clustering_func', clustering_func_args = clustering_func_args',
      affinity_matrix_' = None, labels_' = None, clustering_func_' = None,
      clustering_func_args_' = None, feature_combinations = feature_combinations'\<rparr>"

definition UnsupervisedObliqueDecisionTree_default :: "'t unsupervised_oblique_decision_tree" where
  "UnsupervisedObliqueDecisionTree_default =
     UnsupervisedObliqueDecisionTree_init (CriterionName ''twomeans'') (SplitterName ''best'')
       None (Count 5) (Count 1) 0 MaxFeaturesNone None None 0 (3 / 2) None None"

text \<open>
  \<^verbatim>\<open>UnsupervisedObliqueDecisionTree._build_tree\<close>. It begins with the comment
  \<^verbatim>\<open>TODO: add feature_combinations fix that was used in obliquedecisiontreeclassifier\<close>
  and reads \<^verbatim>\<open>self.feature_combinations\<close> only to pass it to the splitter.
\<close>

definition UnsupervisedObliqueDecisionTree_build_tree ::
  "'t build \<Rightarrow> ('t, 'z) unsupervised_oblique_decision_tree_scheme \<Rightarrow> features \<Rightarrow> target option
     \<Rightarrow> weights option \<Rightarrow> int \<Rightarrow> real \<Rightarrow> int \<Rightarrow> int \<Rightarrow> int \<Rightarrow> nat
     \<Rightarrow> (unit, ('t, 'z) unsupervised_oblique_decision_tree_scheme) outcome" where
  "UnsupervisedObliqueDecisionTree_build_tree build self X y sample_weight min_samples_leaf'
     min_weight_leaf max_leaf_nodes' min_samples_split' max_depth' random_state' =
     seq (case criterion self of
            CriterionName name \<Rightarrow>
              seq (lookup UNSUPERVISED_CRITERIA name self)
                (\<lambda>cls. construct_criterion (UnsupCriterion cls))
          | CriterionInstance c \<Rightarrow> construct_criterion (DeepCopy c) self)
     (\<lambda>criterion' self1.
     seq (case splitter self1 of
            SplitterName name \<Rightarrow>
              seq (lookup UNSUPERVISED_OBLIQUE_SPLITTERS name self1)
                (\<lambda>cls self2.
                   seq (attr ''max_features_'' (max_features_' self2) self2)
                     (\<lambda>max_features'.
                        construct_splitter
                          (NewSplitter cls criterion' max_features' min_samples_leaf'
                             min_weight_leaf random_state'
                             (FeatureCombinations (feature_combinations self2)))))
          | SplitterInstance sp \<Rightarrow> (Inr (GivenSplitter sp), self1))
     (\<lambda>splitter' self2.
     seq (attr ''n_features_in_'' (n_features_in_' self2) self2)
     (\<lambda>n_features_in' self3.
     seq (construct_tree (UnsupervisedObliqueTree n_features_in') self3)
     (\<lambda>t self4.
     let self5 = self4\<lparr>tree_' := Some (Empty t)\<rparr> in
     seq (if max_leaf_nodes' < 0
          then construct_builder
                 (UnsupervisedDepthFirstTreeBuilder splitter' min_samples_split'
                    min_samples_leaf' min_weight_leaf max_depth' (min_impurity_decrease self5))
                 self5
          else construct_builder
                 (UnsupervisedBestFirstTreeBuilder splitter' min_samples_split'
                    min_samples_leaf' min_weight_leaf max_depth' max_leaf_nodes'
                    (min_impurity_decrease self5))
                 self5)
     (\<lambda>builder'. call_build build builder' t X None sample_weight)))))"

section \<open>ObliqueDecisionTreeClassifier\<close>

definition ObliqueDecisionTreeClassifier_init ::
  "criterion_param \<Rightarrow> splitter_param \<Rightarrow> int option \<Rightarrow> count_param \<Rightarrow> count_param \<Rightarrow> real
     \<Rightarrow> max_features_param \<Rightarrow> nat option \<Rightarrow> int option \<Rightarrow> real \<Rightarrow> nat option \<Rightarrow> real option
     \<Rightarrow> 't oblique_decision_tree_classifier" where
  "ObliqueDecisionTreeClassifier_init criterion' splitter' max_depth' min_samples_split'
     min_samples_leaf' min_weight_fraction_leaf' max_features' random_state' max_leaf_nodes'
     min_impurity_decrease' class_weight' feature_combinations' =
     \<lparr>criterion = criterion', splitter = splitter', max_depth = max_depth',
      min_samples_split = min_samples_split', min_samples_leaf = min_samples_leaf',
      min_weight_fraction_leaf = min_weight_fraction_leaf', max_features = max_features',
      max_leaf_nodes = max_leaf_nodes', random_state = random_state',
      min_impurity_decrease = min_impurity_decrease',
      n_features_in_' = None, max_features_' = None, n_outputs_' = None, tree_' = None, calls = [],
      class_weight = class_weight', n_classes_' = None, classes_' = None,
      clf_feature_combinations = feature_combinations', feature_combinations_' = None\<rparr>"

definition ObliqueDecisionTreeClassifier_default :: "'t oblique_decision_tree_classifier" where
  "ObliqueDecisionTreeClassifier_default =
     ObliqueDecisionTreeClassifier_init (CriterionName ''gini'') (SplitterName ''best'') None
       (Count 2) (Count 1) 0 MaxFeaturesNone None None 0 None None"

text \<open>\<^verbatim>\<open>a[0]\<close> on a per-output attribute.\<close>

definition index0 :: "'a per_output \<Rightarrow> 's \<Rightarrow> ('a, 's) outcome" where
  "index0 a s = (case a of PerOutput (x # _) \<Rightarrow> (Inr x, s) | _ \<Rightarrow> (Inl IndexError, s))"

text \<open>
  The parts that the two classifiers' \<^verbatim>\<open>_build_tree\<close> methods have word for word in
  common: making the criterion, making the tree, choosing the builder and running it, and
  the unpacking of \<^verbatim>\<open>n_classes_\<close> and \<^verbatim>\<open>classes_\<close> at the end. \<open>is_clf\<close> is
  scikit-learn's \<^verbatim>\<open>is_classifier(self)\<close>.
\<close>

definition clf_criterion ::
  "bool \<Rightarrow> nat \<Rightarrow> ('t, 'z) decision_tree_classifier_scheme
     \<Rightarrow> (criterion_obj, ('t, 'z) decision_tree_classifier_scheme) outcome" where
  "clf_criterion is_clf n_samples self =
     (case criterion self of
        CriterionName name \<Rightarrow>
          (if is_clf
           then seq (lookup CRITERIA_CLF name self)
                  (\<lambda>cls self1.
                  seq (attr ''n_outputs_'' (n_outputs_' self1) self1)
                  (\<lambda>n_outputs self2.
                  seq (attr ''n_classes_'' (n_classes_' self2) self2)
                  (\<lambda>n_classes. construct_criterion (ClfCriterion cls n_outputs n_classes))))
           else seq (lookup CRITERIA_REG name self)
                  (\<lambda>cls self1.
                  seq (attr ''n_outputs_'' (n_outputs_' self1) self1)
                  (\<lambda>n_outputs. construct_criterion (RegCriterion cls n_outputs n_samples))))
      | CriterionInstance c \<Rightarrow> construct_criterion (DeepCopy c) self)"

definition clf_tree ::
  "bool \<Rightarrow> ('t, 'z) decision_tree_classifier_scheme
     \<Rightarrow> (tree_obj, ('t, 'z) decision_tree_classifier_scheme) outcome" where
  "clf_tree is_clf self =
     (if is_clf
      then seq (attr ''n_features_in_'' (n_features_in_' self) self)
             (\<lambda>n_features_in self1.
             seq (attr ''n_classes_'' (n_classes_' self1) self1)
             (\<lambda>n_classes self2.
             seq (attr ''n_outputs_'' (n_outputs_' self2) self2)
             (\<lambda>n_outputs self3.
             seq (construct_tree (ObliqueTree n_features_in n_classes n_outputs) self3)
             (\<lambda>t self4. (Inr t, self4\<lparr>tree_' := Some (Empty t)\<rparr>)))))
      else seq (attr ''n_features_in_'' (n_features_in_' self) self)
             (\<lambda>n_features_in self1.
             seq (attr ''n_outputs_'' (n_outputs_' self1) self1)
             (\<lambda>n_outputs self2.
             seq (attr ''n_outputs_'' (n_outputs_' self2) self2)
             (\<lambda>n_outputs' self3.
             seq (construct_tree
                    (ObliqueTree n_features_in (PerOutput (replicate n_outputs 1)) n_outputs')
                    self3)
             (\<lambda>t self4. (Inr t, self4\<lparr>tree_' := Some (Empty t)\<rparr>))))))"

definition clf_build ::
  "'t build \<Rightarrow> splitter_obj \<Rightarrow> tree_obj \<Rightarrow> features \<Rightarrow> target option \<Rightarrow> weights option
     \<Rightarrow> int \<Rightarrow> real \<Rightarrow> int \<Rightarrow> int \<Rightarrow> int \<Rightarrow> ('t, 'z) decision_tree_classifier_scheme
     \<Rightarrow> (unit, ('t, 'z) decision_tree_classifier_scheme) outcome" where
  "clf_build build splitter' t X y sample_weight min_samples_leaf' min_weight_leaf
     max_leaf_nodes' min_samples_split' max_depth' self =
     seq (if max_leaf_nodes' < 0
          then construct_builder
                 (DepthFirstTreeBuilder splitter' min_samples_split' min_samples_leaf'
                    min_weight_leaf max_depth' (min_impurity_decrease self))
                 self
          else construct_builder
                 (BestFirstTreeBuilder splitter' min_samples_split' min_samples_leaf'
                    min_weight_leaf max_depth' max_leaf_nodes' (min_impurity_decrease self))
                 self)
     (\<lambda>builder'. call_build build builder' t X y sample_weight)"

definition clf_unpack ::
  "bool \<Rightarrow> ('t, 'z) decision_tree_classifier_scheme
     \<Rightarrow> (unit, ('t, 'z) decision_tree_classifier_scheme) outcome" where
  "clf_unpack is_clf self =
     seq (attr ''n_outputs_'' (n_outputs_' self) self)
     (\<lambda>n_outputs self1.
     if n_outputs = 1 \<and> is_clf
     then seq (attr ''n_classes_'' (n_classes_' self1) self1)
            (\<lambda>n_classes self2.
            seq (index0 n_classes self2)
            (\<lambda>n_classes0 self3.
            let self4 = self3\<lparr>n_classes_' := Some (Single n_classes0)\<rparr> in
            seq (attr ''classes_'' (classes_' self4) self4)
            (\<lambda>classes self5.
            seq (index0 classes self5)
            (\<lambda>classes0 self6. (Inr (), self6\<lparr>classes_' := Some (Single classes0)\<rparr>)))))
     else (Inr (), self1))"

text \<open>\<^verbatim>\<open>ObliqueDecisionTreeClassifier._build_tree\<close>\<close>

definition ObliqueDecisionTreeClassifier_build_tree ::
  "'t build \<Rightarrow> bool \<Rightarrow> ('t, 'z) oblique_decision_tree_classifier_scheme \<Rightarrow> features
     \<Rightarrow> target option \<Rightarrow> weights option \<Rightarrow> int \<Rightarrow> real \<Rightarrow> int \<Rightarrow> int \<Rightarrow> int \<Rightarrow> nat
     \<Rightarrow> (unit, ('t, 'z) oblique_decision_tree_classifier_scheme) outcome" where
  "ObliqueDecisionTreeClassifier_build_tree build is_clf self X y sample_weight min_samples_leaf'
     min_weight_leaf max_leaf_nodes' min_samples_split' max_depth' random_state' =
     (let n_samples = n_rows X; n_features = n_cols X in
     seq (case clf_feature_combinations self of
            None \<Rightarrow> (Inr (), self\<lparr>feature_combinations_' := Some (min (real n_features) (3 / 2))\<rparr>)
          | Some fc \<Rightarrow>
              if fc > real n_features
              then raise (RuntimeError FeatureCombinationsTooLarge) self
              else (Inr (), self\<lparr>feature_combinations_' := Some fc\<rparr>))
     (\<lambda>_ self1.
     seq (clf_criterion is_clf n_samples self1)
     (\<lambda>criterion' self2.
     seq (if issparse X then raise (ValueError SparseNotSupported) self2 else (Inr (), self2))
     (\<lambda>_ self3.
     seq (case splitter self3 of
            SplitterName name \<Rightarrow>
              seq (lookup OBLIQUE_DENSE_SPLITTERS name self3)
                (\<lambda>cls self4.
                seq (attr ''max_features_'' (max_features_' self4) self4)
                (\<lambda>max_features' self5.
                seq (attr ''feature_combinations_'' (feature_combinations_' self5) self5)
                (\<lambda>fc.
                   construct_splitter
                     (NewSplitter cls criterion' max_features' min_samples_leaf' min_weight_leaf
                        random_state' (FeatureCombinations fc)))))
          | SplitterInstance sp \<Rightarrow> (Inr (GivenSplitter sp), self3))
     (\<lambda>splitter' self4.
     seq (clf_tree is_clf self4)
     (\<lambda>t self5.
     seq (clf_build build splitter' t X y sample_weight min_samples_leaf' min_weight_leaf
            max_leaf_nodes' min_samples_split' max_depth' self5)
     (\<lambda>_. clf_unpack is_clf)))))))"

section \<open>PatchObliqueDecisionTreeClassifier\<close>

definition PatchObliqueDecisionTreeClassifier_init ::
  "criterion_param \<Rightarrow> splitter_param \<Rightarrow> int option \<Rightarrow> count_param \<Rightarrow> count_param \<Rightarrow> real
     \<Rightarrow> max_features_param \<Rightarrow> nat option \<Rightarrow> int option \<Rightarrow> real \<Rightarrow> nat option
     \<Rightarrow> int \<Rightarrow> int \<Rightarrow> int \<Rightarrow> int \<Rightarrow> int \<Rightarrow> int option
     \<Rightarrow> 't patch_oblique_decision_tree_classifier" where
  "PatchObliqueDecisionTreeClassifier_init criterion' splitter' max_depth' min_samples_split'
     min_samples_leaf' min_weight_fraction_leaf' max_features' random_state' max_leaf_nodes'
     min_impurity_decrease' class_weight' min_patch_height' max_patch_height' min_patch_width'
     max_patch_width' data_height' data_width' =
     \<lparr>criterion = criterion', splitter = splitter', max_depth = max_depth',
      min_samples_split = min_samples_split', min_samples_leaf = min_samples_leaf',
      min_weight_fraction_leaf = min_weight_fraction_leaf', max_features = max_features',
      max_leaf_nodes = max_leaf_nodes', random_state = random_state',
      min_impurity_decrease = min_impurity_decrease',
      n_features_in_' = None, max_features_' = None, n_outputs_' = None, tree_' = None, calls = [],
      class_weight = class_weight', n_classes_' = None, classes_' = None,
      min_patch_height = min_patch_height', max_patch_height = max_patch_height',
      min_patch_width = min_patch_width', max_patch_width = max_patch_width',
      data_height = data_height', data_width = data_width',
      data_width_' = None, data_height_' = None\<rparr>"

definition PatchObliqueDecisionTreeClassifier_default ::
  "'t patch_oblique_decision_tree_classifier" where
  "PatchObliqueDecisionTreeClassifier_default =
     PatchObliqueDecisionTreeClassifier_init (CriterionName ''gini'') (SplitterName ''best'')
       None (Count 2) (Count 1) 0 MaxFeaturesNone None None 0 None 1 1 1 1 1 None"

text \<open>
  The collaborators of \<^verbatim>\<open>PatchObliqueDecisionTreeClassifier.fit\<close>: \<^verbatim>\<open>_validate_data\<close> on
  \<open>X\<close> and \<open>y\<close> or on \<open>X\<close> alone, and the \<^verbatim>\<open>fit\<close> of scikit-learn's
  \<^verbatim>\<open>DecisionTreeClassifier\<close>, which is the only way from \<^verbatim>\<open>fit\<close> to \<^verbatim>\<open>_build_tree\<close>.
\<close>

record ('t, 'z) patch_extern =
  validate_data_Xy :: "('t, 'z) patch_oblique_decision_tree_classifier_scheme \<Rightarrow> features
     \<Rightarrow> target
     \<Rightarrow> (features \<times> target, ('t, 'z) patch_oblique_decision_tree_classifier_scheme) outcome"
  validate_data_X :: "('t, 'z) patch_oblique_decision_tree_classifier_scheme \<Rightarrow> features
     \<Rightarrow> (features, ('t, 'z) patch_oblique_decision_tree_classifier_scheme) outcome"
  clf_super_fit :: "('t, 'z) patch_oblique_decision_tree_classifier_scheme \<Rightarrow> features
     \<Rightarrow> target option \<Rightarrow> weights option \<Rightarrow> bool
     \<Rightarrow> (unit, ('t, 'z) patch_oblique_decision_tree_classifier_scheme) outcome"

text \<open>The block under \<^verbatim>\<open>if check_input\<close> of \<^verbatim>\<open>PatchObliqueDecisionTreeClassifier.fit\<close>.\<close>

definition patch_check_input ::
  "('t, 'z) patch_extern \<Rightarrow> ('t, 'z) patch_oblique_decision_tree_classifier_scheme \<Rightarrow> features
     \<Rightarrow> target option \<Rightarrow> bool
     \<Rightarrow> (features \<times> target option,
         ('t, 'z) patch_oblique_decision_tree_classifier_scheme) outcome" where
  "patch_check_input ext self X y check_input =
     (if check_input
      then
        seq (case y of
               Some yv \<Rightarrow>
                 seq (validate_data_Xy ext self X yv) (\<lambda>(X1, y1) self1. (Inr (X1, Some y1), self1))
             | None \<Rightarrow>
                 seq (validate_data_X ext self X) (\<lambda>X1 self1. (Inr (X1, None), self1)))
        (\<lambda>(X1, y1) self1.
        seq (if issparse X1
             then (if \<not> indices_intc (sort_indices X1)
                   then raise (ValueError SparseInt64Index) self1
                   else (Inr (sort_indices X1), self1))
             else (Inr X1, self1))
        (\<lambda>X2 self2.
        case y1 of
          Some yv \<Rightarrow>
            if criterion self2 = CriterionName ''poisson''
            then (if list_ex (\<lambda>v. v < 0) yv then raise (ValueError PoissonNegativeY) self2
                  else if sum_list yv \<le> 0 then raise (ValueError PoissonNonPositiveSum) self2
                  else (Inr (X2, y1), self2))
            else (Inr (X2, y1), self2)
        | None \<Rightarrow> (Inr (X2, y1), self2)))
      else (Inr (X, y), self))"

text \<open>
  The rest of \<^verbatim>\<open>fit\<close>: the data width and height are stored, the five checks run in
  the order of the source, and only then is \<^verbatim>\<open>super().fit\<close> called.
\<close>

definition patch_validate ::
  "('t, 'z) patch_oblique_decision_tree_classifier_scheme \<Rightarrow> features
     \<Rightarrow> (unit, ('t, 'z) patch_oblique_decision_tree_classifier_scheme) outcome" where
  "patch_validate self X =
     (let self1 = (case data_width self of
                     None \<Rightarrow> self\<lparr>data_width_' := Some (int (n_cols X))\<rparr>
                   | Some w \<Rightarrow> self\<lparr>data_width_' := Some w\<rparr>);
          self2 = self1\<lparr>data_height_' := Some (data_height self1)\<rparr>
      in
     seq (attr ''data_height_'' (data_height_' self2) self2)
     (\<lambda>data_height' self3.
     seq (attr ''data_width_'' (data_width_' self3) self3)
     (\<lambda>data_width' self4.
     if data_height' * data_width' \<noteq> int (n_cols X)
       then raise (RuntimeError DataShapeMismatch) self4
     else if min_patch_height self4 > max_patch_height self4
       then raise (RuntimeError MinPatchHeightAboveMax) self4
     else if min_patch_width self4 > max_patch_width self4
       then raise (RuntimeError MinPatchWidthAboveMax) self4
     else if max_patch_width self4 > data_width'
       then raise (RuntimeError MaxPatchWidthAboveData) self4
     else if max_patch_height self4 > data_height'
       then raise (RuntimeError MaxPatchHeightAboveData) self4
     else (Inr (), self4))))"

definition PatchObliqueDecisionTreeClassifier_fit ::
  "('t, 'z) patch_extern \<Rightarrow> ('t, 'z) patch_oblique_decision_tree_classifier_scheme \<Rightarrow> features
     \<Rightarrow> target option \<Rightarrow> weights option \<Rightarrow> bool
     \<Rightarrow> (unit, ('t, 'z) patch_oblique_decision_tree_classifier_scheme) outcome" where
  "PatchObliqueDecisionTreeClassifier_fit ext self X y sample_weight check_input =
     seq (patch_check_input ext self X y check_input)
     (\<lambda>(X1, y1) self1.
     seq (patch_validate self1 X1)
     (\<lambda>_ self2. clf_super_fit ext self2 X1 y1 sample_weight False))"

text \<open>\<^verbatim>\<open>PatchObliqueDecisionTreeClassifier._build_tree\<close>\<close>

definition PatchObliqueDecisionTreeClassifier_build_tree ::
  "'t build \<Rightarrow> bool \<Rightarrow> ('t, 'z) patch_oblique_decision_tree_classifier_scheme \<Rightarrow> features
     \<Rightarrow> target option \<Rightarrow> weights option \<Rightarrow> int \<Rightarrow> real \<Rightarrow> int \<Rightarrow> int \<Rightarrow> int \<Rightarrow> nat
     \<Rightarrow> (unit, ('t, 'z) patch_oblique_decision_tree_classifier_scheme) outcome" where
  "PatchObliqueDecisionTreeClassifier_build_tree build is_clf self X y sample_weight
     min_samples_leaf' min_weight_leaf max_leaf_nodes' min_samples_split' max_depth'
     random_state' =
     (let n_samples = n_rows X in
     seq (clf_criterion is_clf n_samples self)
     (\<lambda>criterion' self2.
     seq (if issparse X then raise (ValueError SparseNotSupported) self2 else (Inr (), self2))
     (\<lambda>_ self3.
     seq (case splitter self3 of
            SplitterName name \<Rightarrow>
              seq (lookup PATCH_DENSE_SPLITTERS name self3)
                (\<lambda>cls self4.
                seq (attr ''max_features_'' (max_features_' self4) self4)
                (\<lambda>max_features' self5.
                seq (attr ''data_height_'' (data_height_' self5) self5)
                (\<lambda>data_height' self6.
                seq (attr ''data_width_'' (data_width_' self6) self6)
                (\<lambda>data_width'.
                   construct_splitter
                     (NewSplitter cls criterion' max_features' min_samples_leaf' min_weight_leaf
                        random_state'
                        (Patch (min_patch_height self6) (max_patch_height self6)
                           (min_patch_width self6) (max_patch_width self6)
                           data_height' data_width'))))))
          | SplitterInstance sp \<Rightarrow> (Inr (GivenSplitter sp), self3))
     (\<lambda>splitter' self4.
     seq (clf_tree is_clf self4)
     (\<lambda>t self5.
     seq (clf_build build splitter' t X y sample_weight min_samples_leaf' min_weight_leaf
            max_leaf_nodes' min_samples_split' max_depth' self5)
     (\<lambda>_. clf_unpack is_clf))))))"

section \<open>From the constructor to the builder\<close>

text \<open>
  The calls that a method has issued: those in the log of the state it leaves that were
  not yet in the log of the state it started from.
\<close>

definition new_calls ::
  "('t, 'z) base_decision_tree_scheme \<Rightarrow> ('t, 'y) base_decision_tree_scheme \<Rightarrow> call list" where
  "new_calls self self' = drop (length (calls self)) (calls self')"

text \<open>
  The value of \<^verbatim>\<open>min_samples_split\<close> that reaches \<^verbatim>\<open>_build_tree\<close>, as the parameter
  documentation of the classes states it: an integer is the minimum number itself, a
  fraction \<open>f\<close> stands for \<open>ceil(f * n_samples)\<close>. The base class, which computes the
  value, is scikit-learn's; it also keeps the value at least 2 and at least twice
  \<^verbatim>\<open>min_samples_leaf\<close>, which changes nothing for the integer 5 with the default
  \<^verbatim>\<open>min_samples_leaf = 1\<close>, the only case used below.
\<close>

definition resolve_min_samples_split :: "count_param \<Rightarrow> nat \<Rightarrow> int" where
  "resolve_min_samples_split p n_samples =
     (case p of Count k \<Rightarrow> k | Fraction f \<Rightarrow> \<lceil>f * real n_samples\<rceil>)"

text \<open>
  Modelled from the spec: the stopping predicate of the tree builders, whose code
  (the compiled builders of \<^verbatim>\<open>sktree/tree/_unsup_tree\<close>) is not among the sources. A
  node popped by the builder becomes a leaf when
  \<^verbatim>\<open>(depth >= max_depth) OR (weighted_n_node_samples < min_samples_split) OR (node is
  pure) OR (no admissible split found)\<close>; otherwise it is split.
\<close>

definition builder_stops :: "builder \<Rightarrow> int \<Rightarrow> real \<Rightarrow> bool \<Rightarrow> bool \<Rightarrow> bool" where
  "builder_stops b depth weighted_n_node_samples pure no_admissible_split =
     (depth \<ge> builder_max_depth b \<or>
      weighted_n_node_samples < real_of_int (builder_min_samples_split b) \<or>
      pure \<or> no_admissible_split)"

section \<open>Vocabulary of the theorems\<close>

text \<open>
  \<open>builds_with P cs\<close>: every \<^verbatim>\<open>builder.build\<close> among the calls \<open>cs\<close> is on a builder
  that satisfies \<open>P\<close>. \<open>builder_follows\<close>: the builder is of the kind that the value of
  \<^verbatim>\<open>max_leaf_nodes\<close> asks for, and holds the given \<^verbatim>\<open>min_samples_split\<close>.
  \<open>no_tree_work\<close>: the calls construct no splitter and no tree and grow no tree.
\<close>

definition builds_with :: "(builder \<Rightarrow> bool) \<Rightarrow> call list \<Rightarrow> bool" where
  "builds_with P cs = list_all (\<lambda>c. case c of Call_build b \<Rightarrow> P b | _ \<Rightarrow> True) cs"

definition builder_follows :: "int \<Rightarrow> int \<Rightarrow> builder \<Rightarrow> bool" where
  "builder_follows max_leaf_nodes' min_samples_split' b =
     (builder_min_samples_split b = min_samples_split' \<and>
      (is_depth_first b \<longleftrightarrow> max_leaf_nodes' < 0) \<and>
      (is_best_first b \<longleftrightarrow> \<not> max_leaf_nodes' < 0))"

definition no_tree_work :: "call list \<Rightarrow> bool" where
  "no_tree_work cs =
     list_all (\<lambda>c. \<not> is_construct_splitter c \<and> \<not> is_construct_tree c \<and> \<not> is_call_build c) cs"

text \<open>
  The statements of the classifiers' \<^verbatim>\<open>_build_tree\<close> that come before the check for a
  sparse \<open>X\<close> do not raise: \<^verbatim>\<open>feature_combinations\<close> is unset or at most the number of
  features, and the criterion is an instance or a name of the table, with the attributes
  its constructor reads in place.
\<close>

definition feature_combinations_fit :: "real option \<Rightarrow> features \<Rightarrow> bool" where
  "feature_combinations_fit fc X = (case fc of None \<Rightarrow> True | Some c \<Rightarrow> c \<le> real (n_cols X))"

definition criterion_resolves :: "bool \<Rightarrow> ('t, 'z) decision_tree_classifier_scheme \<Rightarrow> bool" where
  "criterion_resolves is_clf self =
     (case criterion self of
        CriterionInstance _ \<Rightarrow> True
      | CriterionName name \<Rightarrow>
          if is_clf
          then CRITERIA_CLF name \<noteq> None \<and> n_outputs_' self \<noteq> None \<and> n_classes_' self \<noteq> None
          else CRITERIA_REG name \<noteq> None \<and> n_outputs_' self \<noteq> None)"


text \<open>
  The clustering class and keyword arguments that \<^verbatim>\<open>_assign_labels\<close> settles on, and the
  kind of builder that a value of \<^verbatim>\<open>max_leaf_nodes\<close> asks for: best-first for a bound,
  depth-first for the negative value that stands for no bound.
\<close>

definition chosen_clustering :: "('t, 'z) unsupervised_decision_tree_scheme \<Rightarrow> clustering" where
  "chosen_clustering self =
     (case clustering_func self of None \<Rightarrow> AgglomerativeClustering | Some c \<Rightarrow> c)"

definition chosen_clustering_args :: "('t, 'z) unsupervised_decision_tree_scheme \<Rightarrow> kwargs" where
  "chosen_clustering_args self = (case clustering_func_args self of None \<Rightarrow> [] | Some a \<Rightarrow> a)"

definition kind_follows :: "int \<Rightarrow> builder \<Rightarrow> bool" where
  "kind_follows max_leaf_nodes' b =
     ((is_best_first b \<longleftrightarrow> 0 \<le> max_leaf_nodes') \<and> (is_depth_first b \<longleftrightarrow> max_leaf_nodes' < 0))"

section \<open>Example inputs\<close>

text \<open>
  Concrete inputs on which the theorems below are instantiated: the four samples of two
  well separated clusters, dense and as a sparse matrix; collaborators that accept their
  input, grow a tree without raising, send the first two samples to leaf 1 and the other
  two to leaf 2, and label the samples by their leaf; and estimators in the state in
  which the base class calls \<^verbatim>\<open>_build_tree\<close>, the attributes it reads set.
\<close>

definition example_X :: features where
  "example_X = \<lparr>n_rows = 4, n_cols = 2, issparse = False, indices_intc = True,
     indices_sorted = True, data = [[0, 0], [1 / 10, 0], [10, 0], [101 / 10, 0]]\<rparr>"

definition example_sparse_X :: features where
  "example_sparse_X = example_X\<lparr>issparse := True\<rparr>"

definition example_build :: "unit build" where
  "example_build b t X y sample_weight = Inr ()"

definition example_unsup :: "unit unsupervised_decision_tree" where
  "example_unsup = UnsupervisedDecisionTree_default
     \<lparr>n_features_in_' := Some 2, max_features_' := Some 2, n_outputs_' := Some 1\<rparr>"

definition example_unsup_oblique :: "unit unsupervised_oblique_decision_tree" where
  "example_unsup_oblique = UnsupervisedObliqueDecisionTree_default
     \<lparr>n_features_in_' := Some 2, max_features_' := Some 2, n_outputs_' := Some 1\<rparr>"

definition example_oblique_clf :: "unit oblique_decision_tree_classifier" where
  "example_oblique_clf = ObliqueDecisionTreeClassifier_default
     \<lparr>n_features_in_' := Some 2, max_features_' := Some 2, n_outputs_' := Some 1,
      n_classes_' := Some (PerOutput [2]), classes_' := Some (PerOutput [[0, 1]])\<rparr>"

definition example_patch_clf :: "unit patch_oblique_decision_tree_classifier" where
  "example_patch_clf = PatchObliqueDecisionTreeClassifier_default
     \<lparr>n_features_in_' := Some 2, max_features_' := Some 2, n_outputs_' := Some 1,
      n_classes_' := Some (PerOutput [2]), classes_' := Some (PerOutput [[0, 1]]),
      data_width_' := Some 2, data_height_' := Some 1\<rparr>"

definition example_unsup_extern :: "(unit, unit) unsup_extern" where
  "example_unsup_extern =
     \<lparr>validate_data = (\<lambda>self X. (Inr X, self\<lparr>n_features_in_' := Some (n_cols X)\<rparr>)),
      super_fit = (\<lambda>self X y sample_weight check_input.
        UnsupervisedDecisionTree_build_tree example_build
          (self\<lparr>n_features_in_' := Some (n_cols X), max_features_' := Some (n_cols X),
                n_outputs_' := Some 1\<rparr>)
          X y sample_weight 1 0 (- 1) 5 10 0),
      tree_apply = (\<lambda>self X. Inr [1, 1, 2, 2]),
      validate_X_predict = (\<lambda>self X check_input. Inr X),
      fit_predict = (\<lambda>cls args m. Inr (map (\<lambda>row. if hd row = 1 then 0 else 1) m))\<rparr>"

definition example_patch_extern :: "(unit, unit) patch_extern" where
  "example_patch_extern =
     \<lparr>validate_data_Xy = (\<lambda>self X y. (Inr (X, y), self\<lparr>n_features_in_' := Some (n_cols X)\<rparr>)),
      validate_data_X = (\<lambda>self X. (Inr X, self\<lparr>n_features_in_' := Some (n_cols X)\<rparr>)),
      clf_super_fit = (\<lambda>self X y sample_weight check_input.
        PatchObliqueDecisionTreeClassifier_build_tree example_build True
          (self\<lparr>n_features_in_' := Some (n_cols X), max_features_' := Some (n_cols X),
                n_outputs_' := Some 1, n_classes_' := Some (PerOutput [2]),
                classes_' := Some (PerOutput [[0, 1]])\<rparr>)
          X y sample_weight 1 0 (- 1) 2 10 0)\<rparr>"

section \<open>Properties of the affinity matrix\<close>

lemma samples_in_leaf_eq:
  "atleast_1d (squeeze (argwhere_eq xs leaf)) = filter (\<lambda>i. xs ! i = leaf) [0..<length xs]"
proof -
  define s where "s = filter (\<lambda>i. xs ! i = leaf) [0..<length xs]"
  have c: "concat (map (\<lambda>i. [i]) s) = s"
    by (induction s) auto
  show ?thesis
    unfolding argwhere_eq_def s_def [symmetric]
  proof (cases s)
    case Nil
    then show "atleast_1d (squeeze (map (\<lambda>i. [i]) s)) = s"
      by (simp add: squeeze_def atleast_1d_def)
  next
    case (Cons a t)
    show "atleast_1d (squeeze (map (\<lambda>i. [i]) s)) = s"
    proof (cases t)
      case Nil
      with Cons show ?thesis
        by (simp add: squeeze_def atleast_1d_def)
    next
      case (Cons b u)
      with \<open>s = a # t\<close> have "squeeze (map (\<lambda>i. [i]) s) = Vector (concat (map (\<lambda>i. [i]) s))"
        by (simp add: squeeze_def)
      with c show ?thesis
        by (simp add: atleast_1d_def)
    qed
  qed
qed

lemma set_samples_in_leaf:
  "set (atleast_1d (squeeze (argwhere_eq xs leaf))) = {i. i < length xs \<and> xs ! i = leaf}"
  by (auto simp: samples_in_leaf_eq)

lemma length_set_row: "length (set_row row cs vals) = length row"
proof -
  have "length (fold (\<lambda>(j, v) r. r[j := v]) ps row) = length row" for ps
    by (induction ps arbitrary: row) (auto split: prod.splits)
  then show ?thesis by (simp add: set_row_def)
qed

lemma set_row_nth:
  "j < length row \<Longrightarrow>
   set_row row cs (map f cs) ! j = (if j \<in> set cs then f j else row ! j)"
  unfolding set_row_def
proof (induction cs arbitrary: row)
  case Nil
  then show ?case by simp
next
  case (Cons c cs)
  have len: "j < length (row[c := f c])" using Cons.prems by simp
  show ?case
    using Cons.IH [OF len] Cons.prems
    by (auto simp: nth_list_update)
qed

lemma length_ix_set: "length (ix_set m rs cs vals) = length m"
proof -
  have "length (fold (\<lambda>(i, vrow) a. a[i := set_row (a ! i) cs vrow]) ps m) = length m" for ps
    by (induction ps arbitrary: m) (auto split: prod.splits)
  then show ?thesis by (simp add: ix_set_def)
qed

lemma ix_set_row_length:
  "i < length m \<Longrightarrow> length (ix_set m rs cs vals ! i) = length (m ! i)"
proof -
  have "i < length m \<Longrightarrow>
        length (fold (\<lambda>(i, vrow) a. a[i := set_row (a ! i) cs vrow]) ps m ! i) = length (m ! i)"
    for ps
  proof (induction ps arbitrary: m)
    case Nil
    then show ?case by simp
  next
    case (Cons p ps)
    obtain i0 v where p: "p = (i0, v)" by (cases p)
    have "i < length (m[i0 := set_row (m ! i0) cs v])" using Cons.prems by simp
    moreover have "length (m[i0 := set_row (m ! i0) cs v] ! i) = length (m ! i)"
      using Cons.prems by (cases "i = i0") (simp_all add: length_set_row)
    ultimately show ?case
      using Cons.IH [of "m[i0 := set_row (m ! i0) cs v]"] by (simp add: p)
  qed
  then show "i < length m \<Longrightarrow> length (ix_set m rs cs vals ! i) = length (m ! i)"
    by (simp add: ix_set_def)
qed

lemma ix_set_nth:
  "i < length m \<Longrightarrow> j < length (m ! i) \<Longrightarrow>
   ix_set m rs cs (map (\<lambda>r. map (F r) cs) rs) ! i ! j =
     (if i \<in> set rs \<and> j \<in> set cs then F i j else m ! i ! j)"
  unfolding ix_set_def
proof (induction rs arbitrary: m)
  case Nil
  then show ?case by simp
next
  case (Cons r rs)
  let ?m1 = "m[r := set_row (m ! r) cs (map (F r) cs)]"
  have i1: "i < length ?m1" using Cons.prems by simp
  have j1: "j < length (?m1 ! i)"
    using Cons.prems by (cases "i = r") (simp_all add: length_set_row)
  have step: "?m1 ! i ! j = (if i = r \<and> j \<in> set cs then F i j else m ! i ! j)"
    using Cons.prems by (cases "i = r") (simp_all add: set_row_nth)
  show ?case
    using Cons.IH [OF i1 j1] step by auto
qed

lemma ix_iadd_Inr:
  "in_bounds m rs cs \<Longrightarrow>
   ix_iadd m rs cs k = Inr (ix_set m rs cs (map (\<lambda>r. map (\<lambda>j. m ! r ! j + k) cs) rs))"
  by (simp add: ix_iadd_def ix_get_def comp_def)

lemma square_nth: "square n m \<Longrightarrow> i < n \<Longrightarrow> length (m ! i) = n"
  by (simp add: square_def list_all_length)

lemma square_in_bounds:
  "square n m \<Longrightarrow> \<forall>i\<in>set rs. i < n \<Longrightarrow> \<forall>j\<in>set cs. j < n \<Longrightarrow> in_bounds m rs cs"
  by (auto simp: square_def in_bounds_def list_all_iff)

lemma square_ix_set: "square n m \<Longrightarrow> square n (ix_set m rs cs vals)"
  by (simp add: square_def list_all_length length_ix_set ix_set_row_length)

lemma square_zeros: "square n (zeros n n)"
  by (simp add: square_def zeros_def list_all_iff)

text \<open>
  One pass of the loop body over the leaves \<open>ls\<close>, none of them visited twice, adds
  one to the cell \<open>(i, j)\<close> exactly when samples \<open>i\<close> and \<open>j\<close> share a leaf of \<open>ls\<close>.
\<close>

lemma affinity_loop_invariant:
  assumes "distinct ls" and "square (length X) m"
  shows "\<exists>m'. affinity_loop X ls m = Inr m' \<and> square (length X) m' \<and>
           (\<forall>i<length X. \<forall>j<length X.
              m' ! i ! j = m ! i ! j + (if X ! i = X ! j \<and> X ! i \<in> set ls then 1 else 0))"
  using assms
proof (induction ls arbitrary: m)
  case Nil
  then show ?case by simp
next
  case (Cons l ls)
  let ?s = "atleast_1d (squeeze (argwhere_eq X l))"
  let ?m1 = "ix_set m ?s ?s (map (\<lambda>r. map (\<lambda>j. m ! r ! j + 1) ?s) ?s)"
  have s: "set ?s = {i. i < length X \<and> X ! i = l}"
    by (rule set_samples_in_leaf)
  have "in_bounds m ?s ?s"
    by (rule square_in_bounds [OF Cons.prems(2)]) (simp_all add: s)
  then have step: "ix_iadd m ?s ?s 1 = Inr ?m1"
    by (rule ix_iadd_Inr)
  have sq1: "square (length X) ?m1"
    by (rule square_ix_set [OF Cons.prems(2)])
  have cell1: "?m1 ! i ! j = m ! i ! j + (if X ! i = l \<and> X ! j = l then 1 else 0)"
    if "i < length X" "j < length X" for i j
  proof -
    have "i < length m" using Cons.prems(2) that by (simp add: square_def)
    moreover have "j < length (m ! i)"
      using square_nth [OF Cons.prems(2) that(1)] that(2) by simp
    ultimately have "?m1 ! i ! j = (if i \<in> set ?s \<and> j \<in> set ?s then m ! i ! j + 1 else m ! i ! j)"
      by (rule ix_set_nth)
    then show ?thesis using that by (simp add: s)
  qed
  from Cons.prems(1) have d: "distinct ls" and nl: "l \<notin> set ls" by simp_all
  from Cons.IH [OF d sq1] obtain m' where
    run: "affinity_loop X ls ?m1 = Inr m'" and sq': "square (length X) m'" and
    cell': "\<forall>i<length X. \<forall>j<length X.
              m' ! i ! j = ?m1 ! i ! j + (if X ! i = X ! j \<and> X ! i \<in> set ls then 1 else 0)"
    by blast
  have "affinity_loop X (l # ls) m = Inr m'"
    using step run by simp
  moreover have "m' ! i ! j = m ! i ! j + (if X ! i = X ! j \<and> X ! i \<in> set (l # ls) then 1 else 0)"
    if "i < length X" "j < length X" for i j
    using cell' cell1 [OF that] that nl by auto
  ultimately show ?case using sq' by blast
qed

text \<open>The method returns, its result is square, and each cell is the co-membership bit.\<close>

lemma compute_affinity_matrix_cells:
  "\<exists>m. compute_affinity_matrix X = Inr m \<and> square (length X) m \<and>
       (\<forall>i<length X. \<forall>j<length X. m ! i ! j = (if X ! i = X ! j then 1 else 0))"
proof -
  have d: "distinct (unique X)" by (simp add: unique_def)
  have u: "set (unique X) = set X" by (simp add: unique_def)
  from affinity_loop_invariant [OF d square_zeros, of X] obtain m where
    run: "affinity_loop X (unique X) (zeros (length X) (length X)) = Inr m" and
    sq: "square (length X) m" and
    cell: "\<forall>i<length X. \<forall>j<length X.
             m ! i ! j = zeros (length X) (length X) ! i ! j +
               (if X ! i = X ! j \<and> X ! i \<in> set (unique X) then 1 else 0)"
    by blast
  have "m ! i ! j = (if X ! i = X ! j then 1 else 0)" if "i < length X" "j < length X" for i j
    using cell that by (simp add: u zeros_def)
  with run sq show ?thesis
    by (auto simp: compute_affinity_matrix_def Let_def)
qed

text \<open>
  C1. For every vector of leaf ids \<open>X_leaves\<close> of length \<open>n\<close>, \<^verbatim>\<open>_compute_affinity_matrix\<close>
  returns a matrix of \<open>n\<close> rows of \<open>n\<close> cells whose cell \<open>(i, j)\<close> is 1 if samples \<open>i\<close> and
  \<open>j\<close> have the same leaf id and 0 otherwise: each leaf adds exactly one to every pair of
  its samples, a sample paired with itself included.
\<close>

theorem affinity_matrix_entries:
  "\<exists>m. compute_affinity_matrix X_leaves = Inr m \<and> length m = length X_leaves \<and>
     (\<forall>i<length X_leaves. length (m ! i) = length X_leaves \<and>
        (\<forall>j<length X_leaves. m ! i ! j = (if X_leaves ! i = X_leaves ! j then 1 else 0)))"
proof -
  from compute_affinity_matrix_cells [of X_leaves] obtain m where
    m: "compute_affinity_matrix X_leaves = Inr m" "square (length X_leaves) m"
       "\<forall>i<length X_leaves. \<forall>j<length X_leaves.
          m ! i ! j = (if X_leaves ! i = X_leaves ! j then 1 else 0)"
    by blast
  then show ?thesis
    by (auto simp: square_def list_all_length)
qed

theorem affinity_matrix_entries_witness:
  "\<exists>m. compute_affinity_matrix [2, 2, 5, 5] = Inr m \<and> length m = 4 \<and>
     m ! 0 ! 1 = 1 \<and> m ! 0 ! 2 = 0 \<and> m ! 3 ! 3 = 1 \<and> m ! 3 ! 0 = 0"
proof -
  from affinity_matrix_entries [of "[2, 2, 5, 5]"] obtain m where
    r: "compute_affinity_matrix [2, 2, 5, 5] = Inr m" and l: "length m = 4" and
    c: "\<And>i j. i < 4 \<Longrightarrow> j < 4 \<Longrightarrow>
          m ! i ! j = (if [2, 2, 5, 5 :: int] ! i = [2, 2, 5, 5] ! j then 1 else 0)"
    by auto
  have "m ! 0 ! 1 = 1" using c [of 0 1] by simp
  moreover have "m ! 0 ! 2 = 0" using c [of 0 2] by simp
  moreover have "m ! 3 ! 3 = 1" using c [of 3 3] by simp
  moreover have "m ! 3 ! 0 = 0" using c [of 3 0] by simp
  ultimately show ?thesis using r l by blast
qed

section \<open>Properties of the methods\<close>

lemma seq_Inl [simp]: "seq (Inl e, s) f = (Inl e, s)"
  by (simp add: seq_def)

lemma seq_Inr [simp]: "seq (Inr a, s) f = f a s"
  by (simp add: seq_def)

lemma raise_simp [simp]: "raise e s = (Inl e, s)"
  by (simp add: raise_def)

lemmas construct_defs =
  construct_criterion_def construct_splitter_def construct_tree_def construct_builder_def
  call_build_def

lemmas step_defs = construct_defs lookup_def attr_def index0_def Let_def

lemmas clf_defs = clf_criterion_def clf_tree_def clf_build_def clf_unpack_def

lemmas step_splits =
  criterion_param.splits splitter_param.splits option.splits sum.splits if_splits
  per_output.splits list.splits

lemmas vocabulary_defs = builds_with_def builder_follows_def no_tree_work_def new_calls_def

text \<open>
  Each \<^verbatim>\<open>_build_tree\<close> only adds to the log; every \<^verbatim>\<open>builder.build\<close> it issues is on
  the builder that \<^verbatim>\<open>max_leaf_nodes\<close> asks for, holding the \<^verbatim>\<open>min_samples_split\<close> it
  was given; and it issues one whenever it returns.
\<close>

lemma unsup_build_tree_calls:
  assumes "UnsupervisedDecisionTree_build_tree build self X y sw msl mwl mln mss md rs = (r, self')"
  shows "builds_with (builder_follows mln mss) (new_calls self self') \<and>
         (r = Inr () \<longrightarrow> list_ex is_call_build (new_calls self self'))"
  using assms
  unfolding UnsupervisedDecisionTree_build_tree_def vocabulary_defs
  by (auto simp: step_defs split: step_splits)

lemma unsup_oblique_build_tree_calls:
  assumes "UnsupervisedObliqueDecisionTree_build_tree build self X y sw msl mwl mln mss md rs
             = (r, self')"
  shows "builds_with (builder_follows mln mss) (new_calls self self') \<and>
         (r = Inr () \<longrightarrow> list_ex is_call_build (new_calls self self'))"
  using assms
  unfolding UnsupervisedObliqueDecisionTree_build_tree_def vocabulary_defs
  by (auto simp: step_defs split: step_splits)

lemma oblique_build_tree_calls:
  assumes "ObliqueDecisionTreeClassifier_build_tree build is_clf self X y sw msl mwl mln mss md rs
             = (r, self')"
  shows "builds_with (builder_follows mln mss) (new_calls self self') \<and>
         (r = Inr () \<longrightarrow> list_ex is_call_build (new_calls self self'))"
  using assms
  unfolding ObliqueDecisionTreeClassifier_build_tree_def vocabulary_defs
  by (auto simp: step_defs clf_defs split: step_splits)

lemma patch_build_tree_calls:
  assumes "PatchObliqueDecisionTreeClassifier_build_tree build is_clf self X y sw msl mwl mln mss
             md rs = (r, self')"
  shows "builds_with (builder_follows mln mss) (new_calls self self') \<and>
         (r = Inr () \<longrightarrow> list_ex is_call_build (new_calls self self'))"
  using assms
  unfolding PatchObliqueDecisionTreeClassifier_build_tree_def vocabulary_defs
  by (auto simp: step_defs clf_defs split: step_splits)

lemma builds_with_mono:
  "builds_with P cs \<Longrightarrow> (\<And>b. P b \<Longrightarrow> Q b) \<Longrightarrow> builds_with Q cs"
  by (auto simp: builds_with_def list_all_iff split: call.splits)

text \<open>On a sparse \<open>X\<close> the classifiers' \<^verbatim>\<open>_build_tree\<close> raises before any work on a tree.\<close>

lemma oblique_sparse:
  assumes "issparse X"
  shows "\<exists>e self'. ObliqueDecisionTreeClassifier_build_tree build is_clf self X y sw msl mwl mln
                     mss md rs = (Inl e, self') \<and>
           no_tree_work (new_calls self self') \<and> tree_' self' = tree_' self \<and>
           (feature_combinations_fit (clf_feature_combinations self) X \<and>
            criterion_resolves is_clf self \<longrightarrow> e = ValueError SparseNotSupported) \<and>
           (\<not> feature_combinations_fit (clf_feature_combinations self) X
              \<longrightarrow> e = RuntimeError FeatureCombinationsTooLarge)"
  using assms
  unfolding ObliqueDecisionTreeClassifier_build_tree_def vocabulary_defs
    criterion_resolves_def feature_combinations_fit_def
  by (auto simp: step_defs clf_defs split: step_splits)

lemma patch_sparse:
  assumes "issparse X"
  shows "\<exists>e self'. PatchObliqueDecisionTreeClassifier_build_tree build is_clf self X y sw msl mwl
                     mln mss md rs = (Inl e, self') \<and>
           no_tree_work (new_calls self self') \<and> tree_' self' = tree_' self \<and>
           (criterion_resolves is_clf self \<longrightarrow> e = ValueError SparseNotSupported)"
  using assms
  unfolding PatchObliqueDecisionTreeClassifier_build_tree_def vocabulary_defs
    criterion_resolves_def
  by (auto simp: step_defs clf_defs split: step_splits)

text \<open>
  The guard of \<^verbatim>\<open>ObliqueDecisionTreeClassifier._build_tree\<close> is its first statement: with
  \<^verbatim>\<open>feature_combinations\<close> above the number of features it raises at once, and the
  estimator is as it was.
\<close>

lemma oblique_feature_combinations_guard:
  assumes "clf_feature_combinations self = Some fc" and "fc > real (n_cols X)"
  shows "ObliqueDecisionTreeClassifier_build_tree build is_clf self X y sw msl mwl mln mss md rs
           = (Inl (RuntimeError FeatureCombinationsTooLarge), self)"
  using assms
  unfolding ObliqueDecisionTreeClassifier_build_tree_def
  by (simp add: Let_def)

text \<open>What \<^verbatim>\<open>_assign_labels\<close> returns and stores, and what \<^verbatim>\<open>fit\<close> leaves in
  \<^verbatim>\<open>affinity_matrix_\<close> when it returns.\<close>

lemma assign_labels_state:
  "assign_labels ext self A =
     (fit_predict ext (chosen_clustering self) (chosen_clustering_args self) A,
      self\<lparr>clustering_func_' := Some (chosen_clustering self),
           clustering_func_args_' := Some (chosen_clustering_args self)\<rparr>)"
  by (auto simp: assign_labels_def step_defs chosen_clustering_def chosen_clustering_args_def
      split: option.splits)

lemma fit_affinity:
  assumes "fit ext self X y sw ci = (Inr (), self')"
  shows "\<exists>leaves m. affinity_matrix_' self' = Some m \<and> compute_affinity_matrix leaves = Inr m"
  using assms unfolding fit_def
  by (auto simp: seq_def assign_labels_state step_defs split: prod.splits sum.splits if_splits)

lemma transform_state: "snd (transform ext self X) = self"
  unfolding transform_def check_is_fitted_def
  by (auto simp: seq_def split: if_splits sum.splits)

lemmas example_defs = example_X_def example_sparse_X_def example_build_def example_unsup_def
  example_unsup_oblique_def example_oblique_clf_def example_patch_clf_def
  example_unsup_extern_def example_patch_extern_def
  UnsupervisedDecisionTree_default_def UnsupervisedDecisionTree_init_def
  UnsupervisedObliqueDecisionTree_default_def UnsupervisedObliqueDecisionTree_init_def
  ObliqueDecisionTreeClassifier_default_def ObliqueDecisionTreeClassifier_init_def
  PatchObliqueDecisionTreeClassifier_default_def PatchObliqueDecisionTreeClassifier_init_def

text \<open>
  C2. For every vector of leaf ids, the matrix that \<^verbatim>\<open>_compute_affinity_matrix\<close> returns
  is square and symmetric, and its cells are non-negative integers; and after \<^verbatim>\<open>fit\<close>,
  every diagonal cell of \<^verbatim>\<open>affinity_matrix_\<close> is 1, each sample having one leaf id.
\<close>

theorem affinity_matrix_shape:
  "(\<exists>m. compute_affinity_matrix X_leaves = Inr m \<and> square (length X_leaves) m \<and>
      (\<forall>i<length X_leaves. \<forall>j<length X_leaves. m ! i ! j = m ! j ! i \<and> 0 \<le> sint (m ! i ! j)) \<and>
      (\<forall>i<length X_leaves. m ! i ! i = 1)) \<and>
   (fit ext self X y sample_weight check_input = (Inr (), self') \<longrightarrow>
      (\<exists>m. affinity_matrix_' self' = Some m \<and> square (length m) m \<and>
           (\<forall>i<length m. m ! i ! i = 1)))"
proof
  from compute_affinity_matrix_cells [of X_leaves] obtain m where
    m: "compute_affinity_matrix X_leaves = Inr m" "square (length X_leaves) m"
       "\<forall>i<length X_leaves. \<forall>j<length X_leaves.
          m ! i ! j = (if X_leaves ! i = X_leaves ! j then 1 else 0)"
    by blast
  have "m ! i ! j = m ! j ! i \<and> 0 \<le> sint (m ! i ! j)"
    if "i < length X_leaves" "j < length X_leaves" for i j
    using m(3) that by auto
  moreover have "m ! i ! i = 1" if "i < length X_leaves" for i
    using m(3) that by simp
  ultimately show "\<exists>m. compute_affinity_matrix X_leaves = Inr m \<and> square (length X_leaves) m \<and>
      (\<forall>i<length X_leaves. \<forall>j<length X_leaves. m ! i ! j = m ! j ! i \<and> 0 \<le> sint (m ! i ! j)) \<and>
      (\<forall>i<length X_leaves. m ! i ! i = 1)"
    using m(1,2) by blast
next
  show "fit ext self X y sample_weight check_input = (Inr (), self') \<longrightarrow>
      (\<exists>m. affinity_matrix_' self' = Some m \<and> square (length m) m \<and>
           (\<forall>i<length m. m ! i ! i = 1))"
  proof
    assume "fit ext self X y sample_weight check_input = (Inr (), self')"
    from fit_affinity [OF this] obtain leaves m where
      a: "affinity_matrix_' self' = Some m" and c: "compute_affinity_matrix leaves = Inr m"
      by blast
    from compute_affinity_matrix_cells [of leaves] c have
      sq: "square (length leaves) m" and
      cells: "\<forall>i<length leaves. \<forall>j<length leaves.
                m ! i ! j = (if leaves ! i = leaves ! j then 1 else 0)"
      by auto
    from sq have len: "length m = length leaves" by (simp add: square_def)
    with sq cells a show "\<exists>m. affinity_matrix_' self' = Some m \<and> square (length m) m \<and>
           (\<forall>i<length m. m ! i ! i = 1)"
      by simp
  qed
qed

theorem affinity_matrix_shape_witness:
  "(\<exists>m. compute_affinity_matrix [1, 1, 2, 2] = Inr m \<and> length m = 4 \<and>
       m ! 0 ! 2 = m ! 2 ! 0 \<and> 0 \<le> sint (m ! 0 ! 1) \<and> m ! 2 ! 2 = 1) \<and>
   (\<exists>self' m. fit example_unsup_extern UnsupervisedDecisionTree_default example_X None None True
       = (Inr (), self') \<and>
     affinity_matrix_' self' = Some m \<and> length m = 4 \<and> m ! 0 ! 0 = 1 \<and> m ! 3 ! 3 = 1)"
proof -
  let ?s = "snd (fit example_unsup_extern UnsupervisedDecisionTree_default example_X None None True)"
  note inst = affinity_matrix_shape [of "[1, 1, 2, 2]" example_unsup_extern
      UnsupervisedDecisionTree_default example_X None None True ?s]
  have run: "fit example_unsup_extern UnsupervisedDecisionTree_default example_X None None True
               = (Inr (), ?s)"
    by code_simp
  have aff: "affinity_matrix_' ?s = Some [[1,1,0,0],[1,1,0,0],[0,0,1,1],[0,0,1,1]]"
    by code_simp
  from inst [THEN conjunct1] obtain m0 where
    m0: "compute_affinity_matrix [1, 1, 2, 2] = Inr m0"
        "square (length [1, 1, 2, 2 :: int]) m0"
        "\<forall>i<length [1, 1, 2, 2 :: int]. \<forall>j<length [1, 1, 2, 2 :: int].
           m0 ! i ! j = m0 ! j ! i \<and> 0 \<le> sint (m0 ! i ! j)"
        "\<forall>i<length [1, 1, 2, 2 :: int]. m0 ! i ! i = 1"
    by blast
  have "length m0 = 4" using m0(2) by (simp add: square_def)
  moreover have "m0 ! 0 ! 2 = m0 ! 2 ! 0" "0 \<le> sint (m0 ! 0 ! 1)" "m0 ! 2 ! 2 = 1"
    using m0(3,4) by simp_all
  ultimately have first: "\<exists>m. compute_affinity_matrix [1, 1, 2, 2] = Inr m \<and> length m = 4 \<and>
       m ! 0 ! 2 = m ! 2 ! 0 \<and> 0 \<le> sint (m ! 0 ! 1) \<and> m ! 2 ! 2 = 1"
    using m0(1) by blast
  from inst [THEN conjunct2] run obtain m where m: "affinity_matrix_' ?s = Some m" "\<forall>i<length m. m ! i ! i = 1"
    by blast
  with aff have "length m = 4" by auto
  with m run have "\<exists>self' m. fit example_unsup_extern UnsupervisedDecisionTree_default example_X
       None None True = (Inr (), self') \<and>
     affinity_matrix_' self' = Some m \<and> length m = 4 \<and> m ! 0 ! 0 = 1 \<and> m ! 3 ! 3 = 1"
    by auto
  with first show ?thesis by blast
qed

text \<open>
  C3. For every call of \<^verbatim>\<open>UnsupervisedDecisionTree.fit\<close> on a feature matrix of at least
  two samples (the target is not used): \<^verbatim>\<open>fit\<close> builds the tree through the base
  class's \<^verbatim>\<open>fit\<close>, computes the leaf of every training sample with \<^verbatim>\<open>apply\<close>, stores the
  affinity matrix of these leaves in \<^verbatim>\<open>affinity_matrix_\<close>, stores the labels that the
  clustering routine gives for that matrix in \<^verbatim>\<open>labels_\<close>, and returns the estimator.
  The hypotheses say that the collaborators (input validation, the base class's
  \<^verbatim>\<open>fit\<close>, \<^verbatim>\<open>apply\<close>, the clustering routine) return rather than raise.
\<close>

theorem fit_stores_affinity_and_labels:
  assumes "fit_check_input ext self X check_input = (Inr X1, self1)"
    and "super_fit ext self1 X1 None sample_weight check_input = (Inr (), self2)"
    and "tree_apply ext self2 X1 = Inr X_leaves"
    and "compute_affinity_matrix X_leaves = Inr aff"
    and "2 \<le> n_rows X1"
    and "fit_predict ext (chosen_clustering self2) (chosen_clustering_args self2) aff = Inr labels"
  shows "fit ext self X y sample_weight check_input =
           (Inr (), self2\<lparr>affinity_matrix_' := Some aff,
                          clustering_func_' := Some (chosen_clustering self2),
                          clustering_func_args_' := Some (chosen_clustering_args self2),
                          labels_' := Some labels\<rparr>)"
  using assms
  by (simp add: fit_def assign_labels_state step_defs chosen_clustering_def
      chosen_clustering_args_def)

theorem fit_stores_affinity_and_labels_witness:
  "\<exists>self'. fit example_unsup_extern UnsupervisedDecisionTree_default example_X None None True
       = (Inr (), self') \<and>
     2 \<le> n_rows example_X \<and>
     affinity_matrix_' self' = Some [[1,1,0,0],[1,1,0,0],[0,0,1,1],[0,0,1,1]] \<and>
     labels_' self' = Some [0, 0, 1, 1] \<and> tree_' self' = Some (Grown ())"
proof -
  let ?ext = "example_unsup_extern"
  let ?s0 = "UnsupervisedDecisionTree_default :: unit unsupervised_decision_tree"
  let ?s1 = "snd (fit_check_input ?ext ?s0 example_X True)"
  let ?s2 = "snd (super_fit ?ext ?s1 example_X None None True)"
  let ?aff = "[[1,1,0,0],[1,1,0,0],[0,0,1,1],[0,0,1,1]] :: matrix"
  have 1: "fit_check_input ?ext ?s0 example_X True = (Inr example_X, ?s1)" by code_simp
  have 2: "super_fit ?ext ?s1 example_X None None True = (Inr (), ?s2)" by code_simp
  have 3: "tree_apply ?ext ?s2 example_X = Inr [1, 1, 2, 2]" by code_simp
  have 4: "compute_affinity_matrix [1, 1, 2, 2] = Inr ?aff" by code_simp
  have 5: "2 \<le> n_rows example_X" by code_simp
  have 6: "fit_predict ?ext (chosen_clustering ?s2) (chosen_clustering_args ?s2) ?aff
             = Inr [0, 0, 1, 1]" by code_simp
  have t: "tree_' ?s2 = Some (Grown ())" by code_simp
  from fit_stores_affinity_and_labels [OF 1 2 3 4 5 6, of None] 5 t show ?thesis
    by simp
qed

text \<open>
  C4. For every fitted estimator, \<^verbatim>\<open>predict(X)\<close> returns exactly what the clustering
  routine's \<^verbatim>\<open>fit_predict\<close> gives for the affinity matrix that \<^verbatim>\<open>transform\<close> returns for
  the (validated) \<open>X\<close>; and with no \<^verbatim>\<open>clustering_func\<close> configured the routine is
  \<^verbatim>\<open>AgglomerativeClustering\<close>.
\<close>

theorem predict_clusters_transform:
  assumes "validate_X_predict ext self X check_input = Inr X1"
    and "transform ext self X1 = (Inr affinity_matrix, self1)"
  shows "fst (predict ext self X check_input) =
           fit_predict ext (chosen_clustering self) (chosen_clustering_args self) affinity_matrix \<and>
         (clustering_func self = None \<longrightarrow> chosen_clustering self = AgglomerativeClustering)"
proof -
  have "self1 = self"
    using assms(2) transform_state [of ext self X1] by simp
  with assms show ?thesis
    by (simp add: predict_def assign_labels_state chosen_clustering_def)
qed

theorem predict_clusters_transform_witness:
  "\<exists>self. fit example_unsup_extern UnsupervisedDecisionTree_default example_X None None True
       = (Inr (), self) \<and>
     validate_X_predict example_unsup_extern self example_X True = Inr example_X \<and>
     transform example_unsup_extern self example_X
       = (Inr [[1,1,0,0],[1,1,0,0],[0,0,1,1],[0,0,1,1]], self) \<and>
     fst (predict example_unsup_extern self example_X True) = Inr [0, 0, 1, 1] \<and>
     chosen_clustering self = AgglomerativeClustering"
proof -
  let ?ext = "example_unsup_extern"
  let ?s = "snd (fit ?ext UnsupervisedDecisionTree_default example_X None None True)"
  let ?aff = "[[1,1,0,0],[1,1,0,0],[0,0,1,1],[0,0,1,1]] :: matrix"
  have run: "fit ?ext UnsupervisedDecisionTree_default example_X None None True = (Inr (), ?s)"
    by code_simp
  have 1: "validate_X_predict ?ext ?s example_X True = Inr example_X" by code_simp
  have 2: "transform ?ext ?s example_X = (Inr ?aff, ?s)" by code_simp
  have 3: "clustering_func ?s = None" by code_simp
  have 4: "fit_predict ?ext AgglomerativeClustering (chosen_clustering_args ?s) ?aff
             = Inr [0, 0, 1, 1]" by code_simp
  from predict_clusters_transform [OF 1 2] 3 4
  have "fst (predict ?ext ?s example_X True) = Inr [0, 0, 1, 1] \<and>
        chosen_clustering ?s = AgglomerativeClustering"
    by simp
  with run 1 2 show ?thesis by blast
qed

text \<open>
  C5. For every fitted estimator and every \<open>X\<close>, \<^verbatim>\<open>transform(X)\<close> computes the leaves of
  \<open>X\<close> in the tree already built and returns their affinity matrix; it builds no tree and
  leaves the estimator exactly as it was (so \<^verbatim>\<open>tree_\<close>, \<^verbatim>\<open>affinity_matrix_\<close> and
  \<^verbatim>\<open>labels_\<close> are unchanged). On an estimator as its constructor made it, before any
  \<^verbatim>\<open>fit\<close>, \<^verbatim>\<open>transform\<close> fails with \<open>NotFittedError\<close>.
\<close>

theorem transform_frame:
  "snd (transform ext self X) = self \<and>
   (check_is_fitted self = (Inr (), self) \<longrightarrow>
      fst (transform ext self X) =
        (case tree_apply ext self X of
           Inl e \<Rightarrow> Inl e
         | Inr X_leaves \<Rightarrow> compute_affinity_matrix X_leaves)) \<and>
   fst (transform ext0
          (UnsupervisedDecisionTree_init c s md mss msl mwfl mf mln rs mid cf cfa) X)
     = Inl NotFittedError \<and>
   fst (transform ext1
          (UnsupervisedObliqueDecisionTree_init c s md mss msl mwfl mf mln rs mid fc cf cfa) X)
     = Inl NotFittedError"
proof -
  have "check_is_fitted self = (Inr (), self) \<longrightarrow>
      fst (transform ext self X) =
        (case tree_apply ext self X of
           Inl e \<Rightarrow> Inl e
         | Inr X_leaves \<Rightarrow> compute_affinity_matrix X_leaves)"
    by (auto simp: transform_def seq_def split: sum.splits)
  moreover have "fst (transform ext0
          (UnsupervisedDecisionTree_init c s md mss msl mwfl mf mln rs mid cf cfa) X)
     = Inl NotFittedError"
    by (simp add: transform_def check_is_fitted_def UnsupervisedDecisionTree_init_def)
  moreover have "fst (transform ext1
          (UnsupervisedObliqueDecisionTree_init c s md mss msl mwfl mf mln rs mid fc cf cfa) X)
     = Inl NotFittedError"
    by (simp add: transform_def check_is_fitted_def UnsupervisedObliqueDecisionTree_init_def)
  ultimately show ?thesis
    using transform_state [of ext self X] by blast
qed

theorem transform_frame_witness:
  "\<exists>self. fit example_unsup_extern UnsupervisedDecisionTree_default example_X None None True
       = (Inr (), self) \<and>
     check_is_fitted self = (Inr (), self) \<and>
     transform example_unsup_extern self example_X
       = (Inr [[1,1,0,0],[1,1,0,0],[0,0,1,1],[0,0,1,1]], self)"
proof -
  let ?ext = "example_unsup_extern"
  let ?s = "snd (fit ?ext UnsupervisedDecisionTree_default example_X None None True)"
  have run: "fit ?ext UnsupervisedDecisionTree_default example_X None None True = (Inr (), ?s)"
    by code_simp
  have 1: "check_is_fitted ?s = (Inr (), ?s)" by code_simp
  have 2: "tree_apply ?ext ?s example_X = Inr [1, 1, 2, 2]" by code_simp
  have 3: "compute_affinity_matrix [1, 1, 2, 2] = Inr [[1,1,0,0],[1,1,0,0],[0,0,1,1],[0,0,1,1]]"
    by code_simp
  note inst = transform_frame [of ?ext ?s example_X]
  have "snd (transform ?ext ?s example_X) = ?s"
    by (rule inst [THEN conjunct1])
  moreover have "fst (transform ?ext ?s example_X) = Inr [[1,1,0,0],[1,1,0,0],[0,0,1,1],[0,0,1,1]]"
    using inst [THEN conjunct2, THEN conjunct1] 1 2 3 by simp
  ultimately
  have "transform ?ext ?s example_X = (Inr [[1,1,0,0],[1,1,0,0],[0,0,1,1],[0,0,1,1]], ?s)"
    by (simp add: prod_eq_iff)
  with run 1 show ?thesis by blast
qed

text \<open>
  C6. For every tree build, of the unsupervised, unsupervised oblique, oblique and patch
  estimators: each \<^verbatim>\<open>builder.build\<close> that \<^verbatim>\<open>_build_tree\<close> issues is on a best-first
  builder exactly when \<^verbatim>\<open>max_leaf_nodes\<close> is a bound (not negative) and on a depth-first
  builder exactly when it is the negative value that stands for no bound; and a
  \<^verbatim>\<open>_build_tree\<close> that returns has issued one.
\<close>

theorem builder_follows_max_leaf_nodes:
  "(UnsupervisedDecisionTree_build_tree build self_u X y sw msl mwl mln mss md rs = (r_u, self_u')
      \<longrightarrow> builds_with (kind_follows mln) (new_calls self_u self_u') \<and>
          (r_u = Inr () \<longrightarrow> list_ex is_call_build (new_calls self_u self_u'))) \<and>
   (UnsupervisedObliqueDecisionTree_build_tree build self_v X y sw msl mwl mln mss md rs
      = (r_v, self_v')
      \<longrightarrow> builds_with (kind_follows mln) (new_calls self_v self_v') \<and>
          (r_v = Inr () \<longrightarrow> list_ex is_call_build (new_calls self_v self_v'))) \<and>
   (ObliqueDecisionTreeClassifier_build_tree build is_clf self_o X y sw msl mwl mln mss md rs
      = (r_o, self_o')
      \<longrightarrow> builds_with (kind_follows mln) (new_calls self_o self_o') \<and>
          (r_o = Inr () \<longrightarrow> list_ex is_call_build (new_calls self_o self_o'))) \<and>
   (PatchObliqueDecisionTreeClassifier_build_tree build is_clf self_p X y sw msl mwl mln mss md rs
      = (r_p, self_p')
      \<longrightarrow> builds_with (kind_follows mln) (new_calls self_p self_p') \<and>
          (r_p = Inr () \<longrightarrow> list_ex is_call_build (new_calls self_p self_p')))"
proof -
  have k: "builder_follows mln mss b \<Longrightarrow> kind_follows mln b" for b
    by (auto simp: builder_follows_def kind_follows_def)
  show ?thesis
    using unsup_build_tree_calls [of build self_u X y sw msl mwl mln mss md rs r_u self_u']
      unsup_oblique_build_tree_calls [of build self_v X y sw msl mwl mln mss md rs r_v self_v']
      oblique_build_tree_calls [of build is_clf self_o X y sw msl mwl mln mss md rs r_o self_o']
      patch_build_tree_calls [of build is_clf self_p X y sw msl mwl mln mss md rs r_p self_p']
    by (blast intro: builds_with_mono k)
qed

theorem builder_follows_max_leaf_nodes_witness:
  "(\<exists>s. UnsupervisedDecisionTree_build_tree example_build example_unsup example_X None None
          1 0 (- 1) 5 10 0 = (Inr (), s) \<and>
        builds_with is_depth_first (new_calls example_unsup s) \<and>
        list_ex is_call_build (new_calls example_unsup s)) \<and>
   (\<exists>s. UnsupervisedObliqueDecisionTree_build_tree example_build example_unsup_oblique example_X
          None None 1 0 3 5 10 0 = (Inr (), s) \<and>
        builds_with is_best_first (new_calls example_unsup_oblique s) \<and>
        list_ex is_call_build (new_calls example_unsup_oblique s)) \<and>
   (\<exists>s. ObliqueDecisionTreeClassifier_build_tree example_build True example_oblique_clf example_X
          None None 1 0 (- 1) 2 10 0 = (Inr (), s) \<and>
        builds_with is_depth_first (new_calls example_oblique_clf s) \<and>
        list_ex is_call_build (new_calls example_oblique_clf s)) \<and>
   (\<exists>s. PatchObliqueDecisionTreeClassifier_build_tree example_build True example_patch_clf
          example_X None None 1 0 3 2 10 0 = (Inr (), s) \<and>
        builds_with is_best_first (new_calls example_patch_clf s) \<and>
        list_ex is_call_build (new_calls example_patch_clf s))"
proof -
  let ?u = "snd (UnsupervisedDecisionTree_build_tree example_build example_unsup example_X None
                   None 1 0 (- 1) 5 10 0)"
  let ?v = "snd (UnsupervisedObliqueDecisionTree_build_tree example_build example_unsup_oblique
                   example_X None None 1 0 3 5 10 0)"
  let ?o = "snd (ObliqueDecisionTreeClassifier_build_tree example_build True example_oblique_clf
                   example_X None None 1 0 (- 1) 2 10 0)"
  let ?p = "snd (PatchObliqueDecisionTreeClassifier_build_tree example_build True
                   example_patch_clf example_X None None 1 0 3 2 10 0)"
  have u: "UnsupervisedDecisionTree_build_tree example_build example_unsup example_X None None
             1 0 (- 1) 5 10 0 = (Inr (), ?u)" by code_simp
  have v: "UnsupervisedObliqueDecisionTree_build_tree example_build example_unsup_oblique
             example_X None None 1 0 3 5 10 0 = (Inr (), ?v)" by code_simp
  have o: "ObliqueDecisionTreeClassifier_build_tree example_build True example_oblique_clf
             example_X None None 1 0 (- 1) 2 10 0 = (Inr (), ?o)" by code_simp
  have p: "PatchObliqueDecisionTreeClassifier_build_tree example_build True example_patch_clf
             example_X None None 1 0 3 2 10 0 = (Inr (), ?p)" by code_simp
  have d: "kind_follows (- 1) b \<Longrightarrow> is_depth_first b" for b
    by (simp add: kind_follows_def)
  have b: "kind_follows 3 b \<Longrightarrow> is_best_first b" for b
    by (simp add: kind_follows_def)
  have du: "builds_with (kind_follows (- 1)) (new_calls example_unsup ?u) \<and>
            list_ex is_call_build (new_calls example_unsup ?u)"
    using builder_follows_max_leaf_nodes [where build = example_build and self_u = example_unsup
        and X = example_X and y = None and sw = None and msl = 1 and mwl = 0 and mln = "- 1"
        and mss = 5 and md = 10 and rs = 0 and r_u = "Inr ()" and self_u' = ?u,
        THEN conjunct1] u
    by simp
  have dv: "builds_with (kind_follows 3) (new_calls example_unsup_oblique ?v) \<and>
            list_ex is_call_build (new_calls example_unsup_oblique ?v)"
    using builder_follows_max_leaf_nodes [where build = example_build
        and self_v = example_unsup_oblique
        and X = example_X and y = None and sw = None and msl = 1 and mwl = 0 and mln = 3
        and mss = 5 and md = 10 and rs = 0 and r_v = "Inr ()" and self_v' = ?v,
        THEN conjunct2, THEN conjunct1] v
    by simp
  have do: "builds_with (kind_follows (- 1)) (new_calls example_oblique_clf ?o) \<and>
            list_ex is_call_build (new_calls example_oblique_clf ?o)"
    using builder_follows_max_leaf_nodes [where build = example_build and is_clf = True
        and self_o = example_oblique_clf
        and X = example_X and y = None and sw = None and msl = 1 and mwl = 0 and mln = "- 1"
        and mss = 2 and md = 10 and rs = 0 and r_o = "Inr ()" and self_o' = ?o,
        THEN conjunct2, THEN conjunct2, THEN conjunct1] o
    by simp
  have dp: "builds_with (kind_follows 3) (new_calls example_patch_clf ?p) \<and>
            list_ex is_call_build (new_calls example_patch_clf ?p)"
    using builder_follows_max_leaf_nodes [where build = example_build and is_clf = True
        and self_p = example_patch_clf
        and X = example_X and y = None and sw = None and msl = 1 and mwl = 0 and mln = 3
        and mss = 2 and md = 10 and rs = 0 and r_p = "Inr ()" and self_p' = ?p,
        THEN conjunct2, THEN conjunct2, THEN conjunct2] p
    by simp
  have mu: "builds_with is_depth_first (new_calls example_unsup ?u)"
    by (rule builds_with_mono [OF du [THEN conjunct1]]) (rule d)
  have mo: "builds_with is_depth_first (new_calls example_oblique_clf ?o)"
    by (rule builds_with_mono [OF do [THEN conjunct1]]) (rule d)
  have mv: "builds_with is_best_first (new_calls example_unsup_oblique ?v)"
    by (rule builds_with_mono [OF dv [THEN conjunct1]]) (rule b)
  have mp: "builds_with is_best_first (new_calls example_patch_clf ?p)"
    by (rule builds_with_mono [OF dp [THEN conjunct1]]) (rule b)
  show ?thesis
    using u v o p du dv do dp mu mo mv mp by blast
qed

text \<open>
  C7. For every oblique tree fit, of \<^verbatim>\<open>ObliqueDecisionTreeClassifier\<close> and of
  \<^verbatim>\<open>UnsupervisedObliqueDecisionTree\<close> alike, \<^verbatim>\<open>feature_combinations\<close> above the number of
  features makes the fit fail with a configuration error before the tree is grown. This
  holds of the classifier (\<open>oblique_feature_combinations_guard\<close>) and fails of the
  unsupervised estimator: with \<^verbatim>\<open>feature_combinations = 5\<close> on two features its
  \<^verbatim>\<open>_build_tree\<close> hands the value to the splitter, grows the tree and returns, where the
  classifier raises on the same input.
\<close>

theorem unsup_oblique_feature_combinations_unchecked:
  "real (n_cols example_X)
     < feature_combinations (example_unsup_oblique\<lparr>feature_combinations := 5\<rparr>) \<and>
   fst (UnsupervisedObliqueDecisionTree_build_tree example_build
          (example_unsup_oblique\<lparr>feature_combinations := 5\<rparr>) example_X None None
          1 0 (- 1) 5 10 0) = Inr () \<and>
   new_calls (example_unsup_oblique\<lparr>feature_combinations := 5\<rparr>)
     (snd (UnsupervisedObliqueDecisionTree_build_tree example_build
             (example_unsup_oblique\<lparr>feature_combinations := 5\<rparr>) example_X None None
             1 0 (- 1) 5 10 0))
     = [Construct_criterion (UnsupCriterion TwoMeans),
        Construct_splitter
          (NewSplitter BestObliqueUnsupervisedSplitter (UnsupCriterion TwoMeans) 2 1 0 0
             (FeatureCombinations 5)),
        Construct_tree (UnsupervisedObliqueTree 2),
        Construct_builder
          (UnsupervisedDepthFirstTreeBuilder
             (NewSplitter BestObliqueUnsupervisedSplitter (UnsupCriterion TwoMeans) 2 1 0 0
                (FeatureCombinations 5)) 5 1 0 10 0),
        Call_build
          (UnsupervisedDepthFirstTreeBuilder
             (NewSplitter BestObliqueUnsupervisedSplitter (UnsupCriterion TwoMeans) 2 1 0 0
                (FeatureCombinations 5)) 5 1 0 10 0)] \<and>
   tree_' (snd (UnsupervisedObliqueDecisionTree_build_tree example_build
                  (example_unsup_oblique\<lparr>feature_combinations := 5\<rparr>) example_X None None
                  1 0 (- 1) 5 10 0)) = Some (Grown ()) \<and>
   ObliqueDecisionTreeClassifier_build_tree example_build True
     (example_oblique_clf\<lparr>clf_feature_combinations := Some 5\<rparr>) example_X None None
     1 0 (- 1) 2 10 0
     = (Inl (RuntimeError FeatureCombinationsTooLarge),
        example_oblique_clf\<lparr>clf_feature_combinations := Some 5\<rparr>)"
  by code_simp




text \<open>
  C9. As stated (every fit of an oblique or patch tree on a sparse feature matrix fails
  with the input-compatibility error before any tree is built) this does not hold: the
  check for a sparse \<open>X\<close> is not the first statement that can raise. What holds: for
  every \<^verbatim>\<open>_build_tree\<close> of \<^verbatim>\<open>ObliqueDecisionTreeClassifier\<close> or
  \<^verbatim>\<open>PatchObliqueDecisionTreeClassifier\<close> on a sparse \<open>X\<close>, the method raises, it has
  constructed no splitter and no tree and has grown nothing, and \<^verbatim>\<open>tree_\<close> is as it was.
  The error is the \<open>ValueError\<close> for sparse input whenever the statements before the
  check do not raise (\<^verbatim>\<open>feature_combinations\<close> unset or at most the number of features,
  and the criterion constructed); with \<^verbatim>\<open>feature_combinations\<close> above the number of
  features the oblique classifier raises its configuration \<open>RuntimeError\<close> instead.
\<close>

theorem sparse_input_rejected:
  assumes "issparse X"
  shows "(\<exists>e self'. ObliqueDecisionTreeClassifier_build_tree build is_clf self_o X y sw msl mwl
                      mln mss md rs = (Inl e, self') \<and>
            no_tree_work (new_calls self_o self') \<and> tree_' self' = tree_' self_o \<and>
            (feature_combinations_fit (clf_feature_combinations self_o) X \<and>
             criterion_resolves is_clf self_o \<longrightarrow> e = ValueError SparseNotSupported) \<and>
            (\<not> feature_combinations_fit (clf_feature_combinations self_o) X
               \<longrightarrow> e = RuntimeError FeatureCombinationsTooLarge)) \<and>
         (\<exists>e self'. PatchObliqueDecisionTreeClassifier_build_tree build is_clf self_p X y sw msl
                      mwl mln mss md rs = (Inl e, self') \<and>
            no_tree_work (new_calls self_p self') \<and> tree_' self' = tree_' self_p \<and>
            (criterion_resolves is_clf self_p \<longrightarrow> e = ValueError SparseNotSupported))"
  using oblique_sparse [OF assms, of build is_clf self_o y sw msl mwl mln mss md rs]
    patch_sparse [OF assms, of build is_clf self_p y sw msl mwl mln mss md rs]
  by blast

theorem sparse_input_rejected_witness:
  "issparse example_sparse_X \<and>
   fst (ObliqueDecisionTreeClassifier_build_tree example_build True example_oblique_clf
          example_sparse_X None None 1 0 (- 1) 2 10 0) = Inl (ValueError SparseNotSupported) \<and>
   no_tree_work (new_calls example_oblique_clf
     (snd (ObliqueDecisionTreeClassifier_build_tree example_build True example_oblique_clf
          example_sparse_X None None 1 0 (- 1) 2 10 0))) \<and>
   fst (PatchObliqueDecisionTreeClassifier_build_tree example_build True example_patch_clf
          example_sparse_X None None 1 0 (- 1) 2 10 0) = Inl (ValueError SparseNotSupported) \<and>
   no_tree_work (new_calls example_patch_clf
     (snd (PatchObliqueDecisionTreeClassifier_build_tree example_build True example_patch_clf
          example_sparse_X None None 1 0 (- 1) 2 10 0))) \<and>
   fst (ObliqueDecisionTreeClassifier_build_tree example_build True
          (example_oblique_clf\<lparr>clf_feature_combinations := Some 5\<rparr>)
          example_sparse_X None None 1 0 (- 1) 2 10 0)
     = Inl (RuntimeError FeatureCombinationsTooLarge)"
proof -
  let ?wide = "example_oblique_clf\<lparr>clf_feature_combinations := Some 5\<rparr>"
  have sp: "issparse example_sparse_X" by code_simp
  have fo: "feature_combinations_fit (clf_feature_combinations example_oblique_clf)
              example_sparse_X"
    by code_simp
  have nf: "\<not> feature_combinations_fit (clf_feature_combinations ?wide) example_sparse_X"
    by code_simp
  have co: "criterion_resolves True example_oblique_clf"
    by (simp add: criterion_resolves_def example_defs CRITERIA_CLF_def)
  have cp: "criterion_resolves True example_patch_clf"
    by (simp add: criterion_resolves_def example_defs CRITERIA_CLF_def)
  from sparse_input_rejected [OF sp, of example_build True example_oblique_clf None None 1 0
      "- 1" 2 10 0 example_patch_clf] fo co cp sp
  have dense: "fst (ObliqueDecisionTreeClassifier_build_tree example_build True
          example_oblique_clf example_sparse_X None None 1 0 (- 1) 2 10 0)
            = Inl (ValueError SparseNotSupported) \<and>
     no_tree_work (new_calls example_oblique_clf
       (snd (ObliqueDecisionTreeClassifier_build_tree example_build True example_oblique_clf
            example_sparse_X None None 1 0 (- 1) 2 10 0))) \<and>
     fst (PatchObliqueDecisionTreeClassifier_build_tree example_build True example_patch_clf
            example_sparse_X None None 1 0 (- 1) 2 10 0) = Inl (ValueError SparseNotSupported) \<and>
     no_tree_work (new_calls example_patch_clf
       (snd (PatchObliqueDecisionTreeClassifier_build_tree example_build True example_patch_clf
            example_sparse_X None None 1 0 (- 1) 2 10 0)))"
    by auto
  from sparse_input_rejected [OF sp, of example_build True ?wide None None 1 0
      "- 1" 2 10 0 example_patch_clf, THEN conjunct1] nf
  have "fst (ObliqueDecisionTreeClassifier_build_tree example_build True ?wide
               example_sparse_X None None 1 0 (- 1) 2 10 0)
          = Inl (RuntimeError FeatureCombinationsTooLarge)"
    by auto
  with dense sp show ?thesis by blast
qed

text \<open>
  Two fits on a sparse \<open>X\<close> that fail with a configuration error, not with the
  input-compatibility error: the oblique classifier's \<^verbatim>\<open>_build_tree\<close> with
  \<^verbatim>\<open>feature_combinations = 5\<close> on two features, whose guard comes before the check for
  a sparse \<open>X\<close>; and \<^verbatim>\<open>PatchObliqueDecisionTreeClassifier.fit\<close> with
  \<^verbatim>\<open>max_patch_width = 3\<close> on a data width of two, which raises before it calls
  \<^verbatim>\<open>super().fit\<close>.
\<close>

theorem sparse_input_configuration_error_first:
  "issparse example_sparse_X \<and>
   ObliqueDecisionTreeClassifier_build_tree example_build True
     (example_oblique_clf\<lparr>clf_feature_combinations := Some 5\<rparr>) example_sparse_X None None
     1 0 (- 1) 2 10 0
     = (Inl (RuntimeError FeatureCombinationsTooLarge),
        example_oblique_clf\<lparr>clf_feature_combinations := Some 5\<rparr>) \<and>
   RuntimeError FeatureCombinationsTooLarge \<noteq> ValueError SparseNotSupported \<and>
   fst (PatchObliqueDecisionTreeClassifier_fit example_patch_extern
          (PatchObliqueDecisionTreeClassifier_default\<lparr>max_patch_width := 3\<rparr>)
          example_sparse_X (Some [0, 0, 1, 1]) None True)
     = Inl (RuntimeError MaxPatchWidthAboveData)"
  by code_simp

text \<open>
  C10. The default of \<^verbatim>\<open>min_samples_split\<close> in the constructors of
  \<^verbatim>\<open>UnsupervisedDecisionTree\<close> and \<^verbatim>\<open>UnsupervisedObliqueDecisionTree\<close> is 5, not the 2 of
  their parameter documentation and of the two classifiers; so in a fit of an unsupervised
  tree with that default, every builder that \<^verbatim>\<open>_build_tree\<close> runs holds
  \<^verbatim>\<open>min_samples_split = 5\<close> and stops at, rather than splits, any node of weight below 5.
\<close>

theorem unsupervised_default_min_samples_split:
  "min_samples_split (UnsupervisedDecisionTree_default :: 't unsupervised_decision_tree)
     = Count 5 \<and>
   min_samples_split
     (UnsupervisedObliqueDecisionTree_default :: 't unsupervised_oblique_decision_tree)
     = Count 5 \<and>
   documented_min_samples_split = Count 2 \<and>
   min_samples_split (ObliqueDecisionTreeClassifier_default :: 't oblique_decision_tree_classifier)
     = Count 2 \<and>
   min_samples_split
     (PatchObliqueDecisionTreeClassifier_default :: 't patch_oblique_decision_tree_classifier)
     = Count 2 \<and>
   (min_samples_split self_u
      = min_samples_split (UnsupervisedDecisionTree_default :: 't unsupervised_decision_tree) \<longrightarrow>
    UnsupervisedDecisionTree_build_tree build self_u X y sw msl mwl mln
      (resolve_min_samples_split (min_samples_split self_u) (n_rows X)) md rs = (r_u, self_u')
    \<longrightarrow> builds_with (\<lambda>b. \<forall>depth w pure nas. w < 5 \<longrightarrow> builder_stops b depth w pure nas)
          (new_calls self_u self_u') \<and>
        (r_u = Inr () \<longrightarrow> list_ex is_call_build (new_calls self_u self_u'))) \<and>
   (min_samples_split self_v
      = min_samples_split
          (UnsupervisedObliqueDecisionTree_default :: 't unsupervised_oblique_decision_tree) \<longrightarrow>
    UnsupervisedObliqueDecisionTree_build_tree build self_v X y sw msl mwl mln
      (resolve_min_samples_split (min_samples_split self_v) (n_rows X)) md rs = (r_v, self_v')
    \<longrightarrow> builds_with (\<lambda>b. \<forall>depth w pure nas. w < 5 \<longrightarrow> builder_stops b depth w pure nas)
          (new_calls self_v self_v') \<and>
        (r_v = Inr () \<longrightarrow> list_ex is_call_build (new_calls self_v self_v')))"
proof -
  have d: "min_samples_split (UnsupervisedDecisionTree_default :: 't unsupervised_decision_tree)
             = Count 5"
    "min_samples_split
       (UnsupervisedObliqueDecisionTree_default :: 't unsupervised_oblique_decision_tree)
       = Count 5"
    "documented_min_samples_split = Count 2"
    "min_samples_split (ObliqueDecisionTreeClassifier_default :: 't oblique_decision_tree_classifier)
       = Count 2"
    "min_samples_split
       (PatchObliqueDecisionTreeClassifier_default :: 't patch_oblique_decision_tree_classifier)
       = Count 2"
    by (simp_all add: example_defs documented_min_samples_split_def)
  have stop: "builder_follows mln 5 b \<Longrightarrow>
              \<forall>depth w pure nas. w < 5 \<longrightarrow> builder_stops b depth w pure nas" for b
    by (simp add: builder_follows_def builder_stops_def)
  have u: "builds_with (\<lambda>b. \<forall>depth w pure nas. w < 5 \<longrightarrow> builder_stops b depth w pure nas)
             (new_calls self_u self_u') \<and>
           (r_u = Inr () \<longrightarrow> list_ex is_call_build (new_calls self_u self_u'))"
    if "min_samples_split self_u = Count 5"
      "UnsupervisedDecisionTree_build_tree build self_u X y sw msl mwl mln
         (resolve_min_samples_split (min_samples_split self_u) (n_rows X)) md rs = (r_u, self_u')"
  proof -
    from that have "UnsupervisedDecisionTree_build_tree build self_u X y sw msl mwl mln 5 md rs
                      = (r_u, self_u')"
      by (simp add: resolve_min_samples_split_def)
    from unsup_build_tree_calls [OF this]
    have a: "builds_with (builder_follows mln 5) (new_calls self_u self_u')"
      and b: "r_u = Inr () \<longrightarrow> list_ex is_call_build (new_calls self_u self_u')"
      by simp_all
    have "builds_with (\<lambda>b. \<forall>depth w pure nas. w < 5 \<longrightarrow> builder_stops b depth w pure nas)
            (new_calls self_u self_u')"
      by (rule builds_with_mono [OF a]) (rule stop)
    with b show ?thesis by simp
  qed
  have v: "builds_with (\<lambda>b. \<forall>depth w pure nas. w < 5 \<longrightarrow> builder_stops b depth w pure nas)
             (new_calls self_v self_v') \<and>
           (r_v = Inr () \<longrightarrow> list_ex is_call_build (new_calls self_v self_v'))"
    if "min_samples_split self_v = Count 5"
      "UnsupervisedObliqueDecisionTree_build_tree build self_v X y sw msl mwl mln
         (resolve_min_samples_split (min_samples_split self_v) (n_rows X)) md rs = (r_v, self_v')"
  proof -
    from that have "UnsupervisedObliqueDecisionTree_build_tree build self_v X y sw msl mwl mln 5
                      md rs = (r_v, self_v')"
      by (simp add: resolve_min_samples_split_def)
    from unsup_oblique_build_tree_calls [OF this]
    have a: "builds_with (builder_follows mln 5) (new_calls self_v self_v')"
      and b: "r_v = Inr () \<longrightarrow> list_ex is_call_build (new_calls self_v self_v')"
      by simp_all
    have "builds_with (\<lambda>b. \<forall>depth w pure nas. w < 5 \<longrightarrow> builder_stops b depth w pure nas)
            (new_calls self_v self_v')"
      by (rule builds_with_mono [OF a]) (rule stop)
    with b show ?thesis by simp
  qed
  show ?thesis
    using d u v by simp
qed

theorem unsupervised_default_min_samples_split_witness:
  "(\<exists>s. min_samples_split example_unsup
          = min_samples_split (UnsupervisedDecisionTree_default :: unit unsupervised_decision_tree) \<and>
        UnsupervisedDecisionTree_build_tree example_build example_unsup example_X None None 1 0
          (- 1) (resolve_min_samples_split (min_samples_split example_unsup) (n_rows example_X))
          10 0 = (Inr (), s) \<and>
        builds_with (\<lambda>b. builder_stops b 0 4 False False) (new_calls example_unsup s) \<and>
        list_ex is_call_build (new_calls example_unsup s)) \<and>
   (\<exists>s. min_samples_split example_unsup_oblique
          = min_samples_split
              (UnsupervisedObliqueDecisionTree_default :: unit unsupervised_oblique_decision_tree) \<and>
        UnsupervisedObliqueDecisionTree_build_tree example_build example_unsup_oblique example_X
          None None 1 0 (- 1)
          (resolve_min_samples_split (min_samples_split example_unsup_oblique) (n_rows example_X))
          10 0 = (Inr (), s) \<and>
        builds_with (\<lambda>b. builder_stops b 0 4 False False) (new_calls example_unsup_oblique s) \<and>
        list_ex is_call_build (new_calls example_unsup_oblique s))"
proof -
  let ?mu = "resolve_min_samples_split (min_samples_split example_unsup) (n_rows example_X)"
  let ?mv = "resolve_min_samples_split (min_samples_split example_unsup_oblique)
               (n_rows example_X)"
  let ?u = "snd (UnsupervisedDecisionTree_build_tree example_build example_unsup example_X None
                   None 1 0 (- 1) ?mu 10 0)"
  let ?v = "snd (UnsupervisedObliqueDecisionTree_build_tree example_build example_unsup_oblique
                   example_X None None 1 0 (- 1) ?mv 10 0)"
  have eu: "min_samples_split example_unsup
          = min_samples_split (UnsupervisedDecisionTree_default :: unit unsupervised_decision_tree)"
    by (simp add: example_defs)
  have ev: "min_samples_split example_unsup_oblique
          = min_samples_split
              (UnsupervisedObliqueDecisionTree_default :: unit unsupervised_oblique_decision_tree)"
    by (simp add: example_defs)
  have u: "UnsupervisedDecisionTree_build_tree example_build example_unsup example_X None None
             1 0 (- 1) ?mu 10 0 = (Inr (), ?u)" by code_simp
  have v: "UnsupervisedObliqueDecisionTree_build_tree example_build example_unsup_oblique
             example_X None None 1 0 (- 1) ?mv 10 0 = (Inr (), ?v)" by code_simp
  note inst = unsupervised_default_min_samples_split [where 't = unit
      and build = example_build and X = example_X and y = None and sw = None and msl = 1
      and mwl = 0 and mln = "- 1" and md = 10 and rs = 0
      and self_u = example_unsup and r_u = "Inr ()" and self_u' = ?u
      and self_v = example_unsup_oblique and r_v = "Inr ()" and self_v' = ?v]
  have su: "builds_with (\<lambda>b. \<forall>depth w pure nas. w < 5 \<longrightarrow> builder_stops b depth w pure nas)
              (new_calls example_unsup ?u) \<and>
            list_ex is_call_build (new_calls example_unsup ?u)"
    using inst [THEN conjunct2, THEN conjunct2, THEN conjunct2, THEN conjunct2,
        THEN conjunct2, THEN conjunct1] eu u
    by simp
  have sv: "builds_with (\<lambda>b. \<forall>depth w pure nas. w < 5 \<longrightarrow> builder_stops b depth w pure nas)
              (new_calls example_unsup_oblique ?v) \<and>
            list_ex is_call_build (new_calls example_unsup_oblique ?v)"
    using inst [THEN conjunct2, THEN conjunct2, THEN conjunct2, THEN conjunct2,
        THEN conjunct2, THEN conjunct2] ev v
    by simp
  have four: "\<forall>depth w pure nas. w < 5 \<longrightarrow> builder_stops b depth w pure nas
              \<Longrightarrow> builder_stops b 0 4 False False" for b
    by simp
  have bu: "builds_with (\<lambda>b. builder_stops b 0 4 False False) (new_calls example_unsup ?u)"
    by (rule builds_with_mono [OF su [THEN conjunct1]]) (rule four)
  have bv: "builds_with (\<lambda>b. builder_stops b 0 4 False False)
              (new_calls example_unsup_oblique ?v)"
    by (rule builds_with_mono [OF sv [THEN conjunct1]]) (rule four)
  show ?thesis
    using eu ev u v su sv bu bv by blast
qed

end
